theory Spec2Isabelle
  imports Main "HOL-Library.Sublist" "HOL-Library.AList"
begin

section \<open>Values and exceptions of the Python program\<close>

text \<open>
  The operator works on decoded JSON/YAML documents: the specification that the
  dispatcher hands to a handler, the admission request, the objects sent to and read
  from the cluster store. A Python dict keeps its keys in insertion order, so an object
  is an association list; \<^const>\<open>AList.update\<close> overwrites a key where it stands or
  appends it, as \<^verbatim>\<open>d[k] = v\<close> does. Numbers are integers (no claim concerns a
  float). A string is a list of code points below 256.
\<close>

datatype json = JNull | JBool bool | JInt int | JStr string
  | JList "json list" | JObj "(string \<times> json) list"

text \<open>
  Every \<^verbatim>\<open>raise\<close> of the source and of the interpreter is a value. Each exception
  carries a text for \<^verbatim>\<open>str(e)\<close>; \<open>ApiException\<close> also carries the HTTP status that
  the handlers branch on. The wording of the interpreter's own messages differs between
  CPython versions; only the exception class decides which \<^verbatim>\<open>except\<close> clause runs.
\<close>

datatype exn =
    ApiException nat string
  | PermanentError string
  | AttributeError string
  | TypeError string
  | KeyError string
  | IndexError string
  | ValueError string
  | NameError string
  | ImportError string
  | DatabaseError string

fun str_nat :: "nat \<Rightarrow> string" where
  "str_nat n = (if n < 10 then [''0123456789'' ! n]
                else str_nat (n div 10) @ [''0123456789'' ! (n mod 10)])"

declare str_nat.simps [simp del]

definition str_int :: "int \<Rightarrow> string" where
  "str_int i = (if i < 0 then ''-'' @ str_nat (nat (- i)) else str_nat (nat i))"

fun str_exn :: "exn \<Rightarrow> string" where
  "str_exn (ApiException status reason) =
     ''('' @ str_nat status @ '')'' @ [CHR 0x0A] @ ''Reason: '' @ reason @ [CHR 0x0A]"
| "str_exn (PermanentError m) = m"
| "str_exn (AttributeError m) = m"
| "str_exn (TypeError m) = m"
| "str_exn (KeyError k) = [CHR 0x27] @ k @ [CHR 0x27]"
| "str_exn (IndexError m) = m"
| "str_exn (ValueError m) = m"
| "str_exn (NameError n) = ''name '' @ [CHR 0x27] @ n @ [CHR 0x27] @ '' is not defined''"
| "str_exn (ImportError m) = m"
| "str_exn (DatabaseError m) = m"

fun type_name :: "json \<Rightarrow> string" where
  "type_name JNull = ''NoneType''"
| "type_name (JBool _) = ''bool''"
| "type_name (JInt _) = ''int''"
| "type_name (JStr _) = ''str''"
| "type_name (JList _) = ''list''"
| "type_name (JObj _) = ''dict''"

text \<open>Truth value of an object, as \<^verbatim>\<open>if x:\<close> and \<^verbatim>\<open>not x\<close> take it.\<close>

fun truthy :: "json \<Rightarrow> bool" where
  "truthy JNull = False"
| "truthy (JBool b) = b"
| "truthy (JInt i) = (i \<noteq> 0)"
| "truthy (JStr s) = (s \<noteq> [])"
| "truthy (JList xs) = (xs \<noteq> [])"
| "truthy (JObj ps) = (ps \<noteq> [])"

text \<open>\<^verbatim>\<open>d.get(k, default)\<close>: only a dict has the method.\<close>

fun py_get :: "json \<Rightarrow> string \<Rightarrow> json \<Rightarrow> exn + json" where
  "py_get (JObj ps) k dflt = Inr (case map_of ps k of Some v \<Rightarrow> v | None \<Rightarrow> dflt)"
| "py_get v k dflt =
     Inl (AttributeError ([CHR 0x27] @ type_name v @ [CHR 0x27]
            @ '' object has no attribute '' @ [CHR 0x27] @ ''get'' @ [CHR 0x27]))"

fun is_substring :: "string \<Rightarrow> string \<Rightarrow> bool" where
  "is_substring needle [] = (needle = [])"
| "is_substring needle (c # cs) = (prefix needle (c # cs) \<or> is_substring needle cs)"

text \<open>
  \<^verbatim>\<open>k in x\<close> for a string \<open>k\<close>: a key of a dict, an element of a list, a
  substring of a string; anything else is not iterable.
\<close>

fun py_contains :: "string \<Rightarrow> json \<Rightarrow> exn + bool" where
  "py_contains k (JObj ps) = Inr (k \<in> fst ` set ps)"
| "py_contains k (JList xs) = Inr (JStr k \<in> set xs)"
| "py_contains k (JStr s) = Inr (is_substring k s)"
| "py_contains k v =
     Inl (TypeError (''argument of type '' @ [CHR 0x27] @ type_name v @ [CHR 0x27]
            @ '' is not iterable''))"

text \<open>\<^verbatim>\<open>x[k]\<close> for a string \<open>k\<close>.\<close>

fun py_getitem :: "json \<Rightarrow> string \<Rightarrow> exn + json" where
  "py_getitem (JObj ps) k = (case map_of ps k of Some v \<Rightarrow> Inr v | None \<Rightarrow> Inl (KeyError k))"
| "py_getitem (JList xs) k = Inl (TypeError ''list indices must be integers or slices, not str'')"
| "py_getitem (JStr s) k = Inl (TypeError ''string indices must be integers, not str'')"
| "py_getitem v k =
     Inl (TypeError ([CHR 0x27] @ type_name v @ [CHR 0x27] @ '' object is not subscriptable''))"

text \<open>\<^verbatim>\<open>x[k] = v\<close> for a string \<open>k\<close>: the updated object.\<close>

fun py_setitem :: "json \<Rightarrow> string \<Rightarrow> json \<Rightarrow> exn + json" where
  "py_setitem (JObj ps) k v = Inr (JObj (AList.update k v ps))"
| "py_setitem (JList xs) k v =
     Inl (TypeError ''list indices must be integers or slices, not str'')"
| "py_setitem x k v =
     Inl (TypeError ([CHR 0x27] @ type_name x @ [CHR 0x27]
            @ '' object does not support item assignment''))"

text \<open>Sequencing of computations that may raise.\<close>

definition bind :: "exn + 'a \<Rightarrow> ('a \<Rightarrow> exn + 'b) \<Rightarrow> exn + 'b" where
  "bind m f = (case m of Inl e \<Rightarrow> Inl e | Inr v \<Rightarrow> f v)"

section \<open>Database identity derivation\<close>

text \<open>
  \<^verbatim>\<open>generate_db_name\<close> and \<^verbatim>\<open>generate_db_username\<close> format a string and slice
  it with \<^verbatim>\<open>[:63]\<close>. A Python string is a sequence of code points; here it is a
  list of characters, one list element per code point, and the slice is \<^const>\<open>take\<close>.
\<close>

definition generate_db_name :: "string \<Rightarrow> string \<Rightarrow> string" where
  "generate_db_name instance_name namespace =
     take 63 (''odoo_'' @ namespace @ ''_'' @ instance_name)"

definition generate_db_username :: "string \<Rightarrow> string \<Rightarrow> string" where
  "generate_db_username instance_name namespace =
     take 63 (''odoo_user_'' @ namespace @ ''_'' @ instance_name)"

section \<open>Admission gate\<close>

subsection \<open>Validation\<close>

text \<open>
  \<^verbatim>\<open>int(x)\<close>: an integer is itself, a bool is 0 or 1, a string is parsed after
  stripping white space (an optional sign, then decimal digits in which single
  underscores may separate digits), anything else is a \<open>TypeError\<close>.
\<close>

definition is_space :: "char \<Rightarrow> bool" where
  "is_space c = (of_char c \<in> {9, 10, 11, 12, 13, 28, 29, 30, 31, 32, 133, 160 :: nat})"

definition is_digit :: "char \<Rightarrow> bool" where
  "is_digit c = (48 \<le> (of_char c :: nat) \<and> (of_char c :: nat) \<le> 57)"

definition strip :: "string \<Rightarrow> string" where
  "strip s = rev (dropWhile is_space (rev (dropWhile is_space s)))"

text \<open>
  \<open>parse_digits acc prev s\<close> reads the digits of \<open>s\<close> into \<open>acc\<close>; \<open>prev\<close> tells
  whether the previous character was a digit, which an underscore needs on its left.
\<close>

fun parse_digits :: "nat \<Rightarrow> bool \<Rightarrow> string \<Rightarrow> nat option" where
  "parse_digits acc prev [] = (if prev then Some acc else None)"
| "parse_digits acc prev (c # cs) =
     (if is_digit c then parse_digits (10 * acc + (of_char c - 48)) True cs
      else if c = CHR ''_'' \<and> prev then parse_digits acc False cs
      else None)"

definition parse_int :: "string \<Rightarrow> int option" where
  "parse_int s =
     (case strip s of
        [] \<Rightarrow> None
      | c # cs \<Rightarrow>
          if c = CHR ''-'' then map_option (\<lambda>n. - int n) (parse_digits 0 False cs)
          else if c = CHR ''+'' then map_option int (parse_digits 0 False cs)
          else map_option int (parse_digits 0 False (c # cs)))"

fun py_int :: "json \<Rightarrow> exn + int" where
  "py_int (JInt i) = Inr i"
| "py_int (JBool b) = Inr (if b then 1 else 0)"
| "py_int (JStr s) =
     (case parse_int s of
        Some i \<Rightarrow> Inr i
      | None \<Rightarrow> Inl (ValueError (''invalid literal for int() with base 10: '' @ s)))"
| "py_int v =
     Inl (TypeError (''int() argument must be a string, a bytes-like object or a real number, not ''
            @ [CHR 0x27] @ type_name v @ [CHR 0x27]))"

text \<open>
  The name \<^verbatim>\<open>re\<close> at lines 1760 and 1762. The module never imports \<^verbatim>\<open>re\<close>
  (lines 8 to 18 are all its imports, and no later statement binds the name), so
  evaluating \<^verbatim>\<open>re.match\<close> raises \<open>NameError\<close>, before the arguments of the call
  are evaluated.
\<close>

definition re_module :: "exn + unit" where
  "re_module = Inl (NameError ''re'')"

text \<open>
  What \<^verbatim>\<open>re.match\<close> would answer for the two patterns of the source,
  \<^verbatim>\<open>^\d+[KMGTPEkmgtpe]i?$\<close> and \<^verbatim>\<open>^\d+m?$\<close>, were the module bound: one or
  more digits, the unit, and the end of the string, which \<^verbatim>\<open>$\<close> also finds before
  a final newline.
\<close>

definition at_end :: "string \<Rightarrow> bool" where
  "at_end s = (s = [] \<or> s = [CHR 0x0A])"

definition match_memory :: "string \<Rightarrow> bool" where
  "match_memory s =
     (takeWhile is_digit s \<noteq> []
      \<and> (case dropWhile is_digit s of
            [] \<Rightarrow> False
          | c # r \<Rightarrow> c \<in> set ''KMGTPEkmgtpe''
                      \<and> (at_end r \<or> (case r of [] \<Rightarrow> False | i # r' \<Rightarrow> i = CHR ''i'' \<and> at_end r'))))"

definition match_cpu :: "string \<Rightarrow> bool" where
  "match_cpu s =
     (takeWhile is_digit s \<noteq> []
      \<and> (at_end (dropWhile is_digit s)
          \<or> (case dropWhile is_digit s of [] \<Rightarrow> False | c # r \<Rightarrow> c = CHR ''m'' \<and> at_end r)))"

definition re_match :: "(string \<Rightarrow> bool) \<Rightarrow> json \<Rightarrow> exn + bool" where
  "re_match pattern v =
     (case v of
        JStr s \<Rightarrow> Inr (pattern s)
      | _ \<Rightarrow> Inl (TypeError ''expected string or bytes-like object''))"

text \<open>
  \<^verbatim>\<open>validate_odoo_instance\<close> (lines 1726 to 1765) returns the pair
  \<^verbatim>\<open>(is_valid, error_message)\<close>.
\<close>

definition validate_replicas :: "json \<Rightarrow> exn + (bool \<times> string option) option" where
  "validate_replicas spec =
     (case bind (py_getitem spec ''replicas'') py_int of
        Inr replicas \<Rightarrow>
          if replicas < 1
          then Inr (Some (False, Some ([CHR 0x27] @ ''replicas'' @ [CHR 0x27] @ '' must be at least 1'')))
          else Inr None
      | Inl (ValueError m) \<Rightarrow>
          Inr (Some (False, Some ([CHR 0x27] @ ''replicas'' @ [CHR 0x27] @ '' must be a valid integer'')))
      | Inl (TypeError m) \<Rightarrow>
          Inr (Some (False, Some ([CHR 0x27] @ ''replicas'' @ [CHR 0x27] @ '' must be a valid integer'')))
      | Inl e \<Rightarrow> Inl e)"

definition validate_resources :: "json \<Rightarrow> exn + (bool \<times> string option) option" where
  "validate_resources spec =
     bind (py_contains ''resources'' spec) (\<lambda>has_resources.
     if has_resources then
       bind (py_getitem spec ''resources'') (\<lambda>resources.
       bind (py_contains ''limits'' resources) (\<lambda>has_limits.
       if has_limits then
         bind (py_getitem resources ''limits'') (\<lambda>limits.
         bind (py_contains ''memory'' limits) (\<lambda>has_memory.
         bind (if has_memory
               then bind re_module (\<lambda>re.
                    bind (py_getitem limits ''memory'') (re_match match_memory))
               else Inr True) (\<lambda>memory_ok.
         if has_memory \<and> \<not> memory_ok then Inr (Some (False, Some ''Invalid memory limit format''))
         else
           bind (py_contains ''cpu'' limits) (\<lambda>has_cpu.
           bind (if has_cpu
                 then bind re_module (\<lambda>re.
                      bind (py_getitem limits ''cpu'') (re_match match_cpu))
                 else Inr True) (\<lambda>cpu_ok.
           if has_cpu \<and> \<not> cpu_ok then Inr (Some (False, Some ''Invalid CPU limit format''))
           else Inr None)))))
       else Inr None))
     else Inr None)"

definition validate_odoo_instance :: "json \<Rightarrow> exn + (bool \<times> string option)" where
  "validate_odoo_instance instance =
     bind (py_get instance ''spec'' (JObj [])) (\<lambda>spec.
     bind (py_get spec ''version'' JNull) (\<lambda>version.
     if \<not> truthy version then
       Inr (False, Some ([CHR 0x27] @ ''version'' @ [CHR 0x27]
                          @ '' is required in the OdooInstance spec''))
     else
       bind (py_contains ''image'' spec) (\<lambda>has_image.
       bind (if has_image then bind (py_getitem spec ''image'') (\<lambda>image. Inr (truthy image))
             else Inr True) (\<lambda>image_ok.
       if has_image \<and> \<not> image_ok then
         Inr (False, Some ([CHR 0x27] @ ''image'' @ [CHR 0x27] @ '' cannot be empty if specified''))
       else
         bind (py_contains ''replicas'' spec) (\<lambda>has_replicas.
         bind (if has_replicas then validate_replicas spec else Inr None) (\<lambda>r.
         case r of
           Some rejected \<Rightarrow> Inr rejected
         | None \<Rightarrow>
             bind (validate_resources spec) (\<lambda>r.
             case r of Some rejected \<Rightarrow> Inr rejected | None \<Rightarrow> Inr (True, None))))))))"

text \<open>
  The validating route (lines 1807 to 1874) answers with an admission review and an
  HTTP status. An exception raised before the \<^verbatim>\<open>try\<close> leaves the view function;
  one raised inside it becomes a denial whose message quotes the exception.
\<close>

definition admission_review :: "(string \<times> json) list \<Rightarrow> json" where
  "admission_review response =
     JObj [(''apiVersion'', JStr ''admission.k8s.io/v1''),
           (''kind'', JStr ''AdmissionReview''),
           (''response'', JObj response)]"

definition no_request_information :: "json \<times> nat" where
  "no_request_information =
     (admission_review
        [(''uid'', JStr []),
         (''allowed'', JBool False),
         (''status'', JObj [(''code'', JInt 400),
                            (''message'', JStr ''No request information provided'')])],
      400)"

definition validate_odoo_instance_webhook :: "json \<Rightarrow> exn + (json \<times> nat)" where
  "validate_odoo_instance_webhook request_info =
     (if \<not> truthy request_info then Inr no_request_information
      else
        bind (py_get request_info ''request'' (JObj [])) (\<lambda>request_data.
        bind (py_get request_data ''uid'' (JStr [])) (\<lambda>uid.
        case bind (py_get request_data ''object'' (JObj [])) validate_odoo_instance of
          Inr (is_valid, error_message) \<Rightarrow>
            if is_valid then
              Inr (admission_review [(''uid'', uid), (''allowed'', JBool True)], 200)
            else
              Inr (admission_review
                     [(''uid'', uid),
                      (''allowed'', JBool False),
                      (''status'', JObj [(''message'',
                          case error_message of Some m \<Rightarrow> JStr m | None \<Rightarrow> JNull)])],
                   200)
        | Inl e \<Rightarrow>
            Inr (admission_review
                   [(''uid'', uid),
                    (''allowed'', JBool False),
                    (''status'', JObj [(''message'',
                        JStr (''Error validating OdooInstance: '' @ str_exn e))])],
                 200))))"

subsection \<open>Defaulting\<close>

text \<open>
  \<^verbatim>\<open>mutate_odoo_instance\<close> (lines 1767 to 1805) assigns into the dict it is given
  and returns that same dict. \<open>spec\<close> and \<open>ingress\<close> are the nested dicts of the
  instance themselves, so an assignment through them changes the instance: the model
  writes each nested value back where it was read. The first component of a result is
  the outcome, the second the object as the assignments made so far have left it.
\<close>

definition default_resources :: json where
  "default_resources =
     JObj [(''limits'', JObj [(''memory'', JStr ''512Mi''), (''cpu'', JStr ''500m'')]),
           (''requests'', JObj [(''memory'', JStr ''256Mi''), (''cpu'', JStr ''250m'')])]"

definition write_back :: "json \<Rightarrow> string \<Rightarrow> json \<Rightarrow> json" where
  "write_back parent k child =
     (case parent of JObj ps \<Rightarrow> JObj (AList.update k child ps) | _ \<Rightarrow> parent)"

definition mutate_ingress :: "json \<Rightarrow> (exn + unit) \<times> json" where
  "mutate_ingress ingress =
     (case py_contains ''tls'' ingress of
        Inl e \<Rightarrow> (Inl e, ingress)
      | Inr has_tls \<Rightarrow>
          if has_tls then (Inr (), ingress)
          else (case py_setitem ingress ''tls'' (JBool True) of
                  Inl e \<Rightarrow> (Inl e, ingress)
                | Inr ingress' \<Rightarrow> (Inr (), ingress')))"

definition mutate_spec :: "json \<Rightarrow> (exn + unit) \<times> json" where
  "mutate_spec spec =
     (case py_contains ''replicas'' spec of
        Inl e \<Rightarrow> (Inl e, spec)
      | Inr has_replicas \<Rightarrow>
     (case (if has_replicas then Inr spec else py_setitem spec ''replicas'' (JInt 1)) of
        Inl e \<Rightarrow> (Inl e, spec)
      | Inr spec1 \<Rightarrow>
     (case py_contains ''ingress'' spec1 of
        Inl e \<Rightarrow> (Inl e, spec1)
      | Inr has_ingress \<Rightarrow>
     (case (if has_ingress then Inr spec1 else py_setitem spec1 ''ingress'' (JObj [])) of
        Inl e \<Rightarrow> (Inl e, spec1)
      | Inr spec2 \<Rightarrow>
     (case py_getitem spec2 ''ingress'' of
        Inl e \<Rightarrow> (Inl e, spec2)
      | Inr ingress \<Rightarrow>
     (case mutate_ingress ingress of
        (Inl e, ingress') \<Rightarrow> (Inl e, write_back spec2 ''ingress'' ingress')
      | (Inr u, ingress') \<Rightarrow>
     (let spec3 = write_back spec2 ''ingress'' ingress' in
      case py_contains ''resources'' spec3 of
        Inl e \<Rightarrow> (Inl e, spec3)
      | Inr has_resources \<Rightarrow>
          if has_resources then (Inr (), spec3)
          else (case py_setitem spec3 ''resources'' default_resources of
                  Inl e \<Rightarrow> (Inl e, spec3)
                | Inr spec4 \<Rightarrow> (Inr (), spec4)))))))))"

definition mutate_in_place :: "json \<Rightarrow> (exn + unit) \<times> json" where
  "mutate_in_place instance =
     (case py_contains ''spec'' instance of
        Inl e \<Rightarrow> (Inl e, instance)
      | Inr has_spec \<Rightarrow>
     (case (if has_spec then Inr instance else py_setitem instance ''spec'' (JObj [])) of
        Inl e \<Rightarrow> (Inl e, instance)
      | Inr instance1 \<Rightarrow>
     (case py_getitem instance1 ''spec'' of
        Inl e \<Rightarrow> (Inl e, instance1)
      | Inr spec \<Rightarrow>
     (case mutate_spec spec of
        (r, spec') \<Rightarrow> (r, write_back instance1 ''spec'' spec')))))"

text \<open>
  A decoded JSON document has every key of an object once, as a Python dict has.
\<close>

fun distinct_keys :: "json \<Rightarrow> bool" where
  "distinct_keys (JObj ps) = (distinct (map fst ps) \<and> (\<forall>kv \<in> set ps. distinct_keys (snd kv)))"
| "distinct_keys (JList xs) = (\<forall>x \<in> set xs. distinct_keys x)"
| "distinct_keys v = True"

text \<open>
  Objects live in a store and variables hold addresses, so that two names for one dict
  are one address. \<^verbatim>\<open>mutate_odoo_instance\<close> changes the object at the address it is
  given and returns that address (\<^verbatim>\<open>return instance\<close>).
\<close>

type_synonym addr = nat
type_synonym heap = "addr \<Rightarrow> json"

definition mutate_odoo_instance :: "addr \<Rightarrow> heap \<Rightarrow> (exn + addr) \<times> heap" where
  "mutate_odoo_instance instance h =
     (case mutate_in_place (h instance) of
        (Inl e, v) \<Rightarrow> (Inl e, h(instance := v))
      | (Inr u, v) \<Rightarrow> (Inr instance, h(instance := v)))"

text \<open>
  \<^verbatim>\<open>jsonpatch.make_patch(src, dst)\<close> is a third-party library call. It is modelled
  by its contract on objects: a key only in \<open>src\<close> gives a \<open>remove\<close>, a key only in
  \<open>dst\<close> an \<open>add\<close>, a key of both is compared recursively when both values are
  objects and gives a \<open>replace\<close> when the values differ otherwise. (The library also
  descends into arrays; here an array that changed is replaced whole.) A path is the
  list of keys from the root; \<open>pointer\<close> renders it as the library does (RFC 6901).
\<close>

datatype patch_op = Add "string list" json | Remove "string list" | Replace "string list" json

fun diff_json :: "string list \<Rightarrow> json \<Rightarrow> json \<Rightarrow> patch_op list" where
  "diff_json path (JObj src) (JObj dst) =
     map (\<lambda>kv. Remove (path @ [fst kv])) (filter (\<lambda>kv. map_of dst (fst kv) = None) src)
     @ map (\<lambda>kv. Add (path @ [fst kv]) (snd kv)) (filter (\<lambda>kv. map_of src (fst kv) = None) dst)
     @ concat (map (\<lambda>kv. case map_of dst (fst kv) of
                             None \<Rightarrow> []
                           | Some d \<Rightarrow> diff_json (path @ [fst kv]) (snd kv) d) src)"
| "diff_json path s d = (if s = d then [] else [Replace path d])"

definition make_patch :: "json \<Rightarrow> json \<Rightarrow> patch_op list" where
  "make_patch src dst = diff_json [] src dst"

definition escape_key :: "string \<Rightarrow> string" where
  "escape_key k =
     concat (map (\<lambda>c. if c = CHR ''~'' then ''~0'' else if c = CHR ''/'' then ''~1'' else [c]) k)"

definition pointer :: "string list \<Rightarrow> string" where
  "pointer path = concat (map (\<lambda>k. ''/'' @ escape_key k) path)"

text \<open>
  The loop at lines 1913 to 1919 copies each operation into a dict with the keys
  \<open>op\<close>, \<open>path\<close> and \<open>value\<close>; \<^verbatim>\<open>p.get('value', None)\<close> is \<open>None\<close> for a
  \<open>remove\<close>.
\<close>

fun k8s_patch_entry :: "patch_op \<Rightarrow> json" where
  "k8s_patch_entry (Add path v) =
     JObj [(''op'', JStr ''add''), (''path'', JStr (pointer path)), (''value'', v)]"
| "k8s_patch_entry (Remove path) =
     JObj [(''op'', JStr ''remove''), (''path'', JStr (pointer path)), (''value'', JNull)]"
| "k8s_patch_entry (Replace path v) =
     JObj [(''op'', JStr ''replace''), (''path'', JStr (pointer path)), (''value'', v)]"

text \<open>
  Applying a patch (RFC 6902, for paths through objects): what the caller of the
  admission endpoint does with the operations it receives. An operation whose path does
  not resolve makes the whole patch fail.
\<close>

fun set_at :: "string list \<Rightarrow> json \<Rightarrow> json \<Rightarrow> json option" where
  "set_at [] v doc = Some v"
| "set_at [k] v (JObj ps) = Some (JObj (AList.update k v ps))"
| "set_at (k # ks) v (JObj ps) =
     (case map_of ps k of
        None \<Rightarrow> None
      | Some child \<Rightarrow> map_option (\<lambda>c. JObj (AList.update k c ps)) (set_at ks v child))"
| "set_at (k # ks) v doc = None"

fun remove_at :: "string list \<Rightarrow> json \<Rightarrow> json option" where
  "remove_at [] doc = None"
| "remove_at [k] (JObj ps) = (if map_of ps k = None then None else Some (JObj (AList.delete k ps)))"
| "remove_at (k # ks) (JObj ps) =
     (case map_of ps k of
        None \<Rightarrow> None
      | Some child \<Rightarrow> map_option (\<lambda>c. JObj (AList.update k c ps)) (remove_at ks child))"
| "remove_at (k # ks) doc = None"

fun apply_op :: "patch_op \<Rightarrow> json \<Rightarrow> json option" where
  "apply_op (Add path v) doc = set_at path v doc"
| "apply_op (Remove path) doc = remove_at path doc"
| "apply_op (Replace path v) doc =
     (case remove_at path doc of None \<Rightarrow> None | Some _ \<Rightarrow> set_at path v doc)"

fun apply_patch :: "patch_op list \<Rightarrow> json \<Rightarrow> json option" where
  "apply_patch [] doc = Some doc"
| "apply_patch (p # ps) doc =
     (case apply_op p doc of None \<Rightarrow> None | Some doc' \<Rightarrow> apply_patch ps doc')"

text \<open>
  \<^verbatim>\<open>json.dumps\<close> with its default settings: \<open>, \<close> and \<open>: \<close> as separators and every
  character outside the printable ASCII range escaped.
\<close>

definition hex4 :: "nat \<Rightarrow> string" where
  "hex4 n = map (\<lambda>d. ''0123456789abcdef'' ! d)
              [n div 4096 mod 16, n div 256 mod 16, n div 16 mod 16, n mod 16]"

definition escape_char :: "char \<Rightarrow> string" where
  "escape_char c =
     (if c = CHR 0x22 then [CHR 0x5C, CHR 0x22]
      else if c = CHR 0x5C then [CHR 0x5C, CHR 0x5C]
      else if c = CHR 0x0A then [CHR 0x5C, CHR ''n'']
      else if c = CHR 0x0D then [CHR 0x5C, CHR ''r'']
      else if c = CHR 0x09 then [CHR 0x5C, CHR ''t'']
      else if c = CHR 0x08 then [CHR 0x5C, CHR ''b'']
      else if c = CHR 0x0C then [CHR 0x5C, CHR ''f'']
      else if (of_char c :: nat) < 32 \<or> 126 < (of_char c :: nat)
      then [CHR 0x5C, CHR ''u''] @ hex4 (of_char c)
      else [c])"

definition dumps_str :: "string \<Rightarrow> string" where
  "dumps_str s = [CHR 0x22] @ concat (map escape_char s) @ [CHR 0x22]"

fun join :: "string \<Rightarrow> string list \<Rightarrow> string" where
  "join sep [] = []"
| "join sep [x] = x"
| "join sep (x # y # ys) = x @ sep @ join sep (y # ys)"

fun json_dumps :: "json \<Rightarrow> string" where
  "json_dumps JNull = ''null''"
| "json_dumps (JBool b) = (if b then ''true'' else ''false'')"
| "json_dumps (JInt i) = str_int i"
| "json_dumps (JStr s) = dumps_str s"
| "json_dumps (JList xs) = ''['' @ join '', '' (map json_dumps xs) @ '']''"
| "json_dumps (JObj ps) =
     ''{'' @ join '', '' (map (\<lambda>kv. dumps_str (fst kv) @ '': '' @ json_dumps (snd kv)) ps) @ ''}''"

text \<open>
  \<^verbatim>\<open>base64.b64encode\<close> on the bytes of a string. \<^verbatim>\<open>str.encode()\<close> is UTF-8: a code
  point below 128 is one byte, one from 128 to 255 two bytes.
\<close>

definition utf8_encode :: "string \<Rightarrow> string" where
  "utf8_encode s =
     concat (map (\<lambda>c. if (of_char c :: nat) < 128 then [c]
                       else [char_of (192 + (of_char c :: nat) div 64),
                             char_of (128 + (of_char c :: nat) mod 64)]) s)"

definition b64_alphabet :: string where
  "b64_alphabet = ''ABCDEFGHIJKLMNOPQRSTUVWXYZabcdefghijklmnopqrstuvwxyz0123456789+/''"

definition b64_char :: "nat \<Rightarrow> char" where
  "b64_char n = b64_alphabet ! (n mod 64)"

fun b64encode :: "string \<Rightarrow> string" where
  "b64encode [] = []"
| "b64encode [a] =
     (let x = (of_char a :: nat)
      in [b64_char (x div 4), b64_char (x mod 4 * 16), CHR ''='', CHR ''=''])"
| "b64encode [a, b] =
     (let x = (of_char a :: nat); y = (of_char b :: nat)
      in [b64_char (x div 4), b64_char (x mod 4 * 16 + y div 16), b64_char (y mod 16 * 4),
          CHR ''=''])"
| "b64encode (a # b # c # rest) =
     (let x = (of_char a :: nat); y = (of_char b :: nat); z = (of_char c :: nat)
      in [b64_char (x div 4), b64_char (x mod 4 * 16 + y div 16),
          b64_char (y mod 16 * 4 + z div 64), b64_char (z mod 64)] @ b64encode rest)"

text \<open>
  The mutating route (lines 1876 to 1946). \<open>instance\<close> is the address of the request's
  object; \<open>mutated_instance\<close> is whatever address \<^verbatim>\<open>mutate_odoo_instance\<close> returns.
  \<^verbatim>\<open>make_patch\<close> reads both addresses in the store as it is after the call.
  \<^verbatim>\<open>import jsonpatch\<close> stands inside the \<^verbatim>\<open>try\<close>; whether the library is installed
  is a parameter.
\<close>

definition mutate_patch_ops :: "bool \<Rightarrow> json \<Rightarrow> exn + patch_op list" where
  "mutate_patch_ops jsonpatch_installed object =
     (let instance = (0 :: addr);
          h = (\<lambda>a. JNull)(instance := object)
      in case mutate_odoo_instance instance h of
           (Inl e, h') \<Rightarrow> Inl e
         | (Inr mutated_instance, h') \<Rightarrow>
             if \<not> jsonpatch_installed then Inl (ImportError ''No module named jsonpatch'')
             else Inr (make_patch (h' instance) (h' mutated_instance)))"

definition mutate_odoo_instance_webhook :: "bool \<Rightarrow> json \<Rightarrow> exn + (json \<times> nat)" where
  "mutate_odoo_instance_webhook jsonpatch_installed request_info =
     (if \<not> truthy request_info then Inr no_request_information
      else
        bind (py_get request_info ''request'' (JObj [])) (\<lambda>request_data.
        bind (py_get request_data ''uid'' (JStr [])) (\<lambda>uid.
        case bind (py_get request_data ''object'' (JObj []))
                  (mutate_patch_ops jsonpatch_installed) of
          Inr patch_list \<Rightarrow>
            (let k8s_patch = JList (map k8s_patch_entry patch_list)
             in Inr (admission_review
                       [(''uid'', uid),
                        (''allowed'', JBool True),
                        (''patchType'', JStr ''JSONPatch''),
                        (''patch'', JStr (b64encode (utf8_encode (json_dumps k8s_patch))))],
                     200))
        | Inl e \<Rightarrow>
            Inr (admission_review
                   [(''uid'', uid),
                    (''allowed'', JBool False),
                    (''status'', JObj [(''message'',
                        JStr (''Error mutating OdooInstance: '' @ str_exn e))])],
                 200))))"

section \<open>The cluster, the database server and the process environment\<close>

text \<open>
  The handlers talk to two external systems through global client objects: the cluster
  store (create, read, patch and delete per object kind) and a PostgreSQL server. Both
  are state that a handler receives and returns; an exception leaves the state as the
  calls made before it have left it. The settings read from the process environment at
  start-up (lines 31 to 41) and the behaviour that the program cannot control are
  parameters:
  \<^item> \<open>api_fault\<close> may make the \<open>n\<close>-th call to the store fail with an HTTP status
    of its choice, whatever the state of the store (a transient error, a refusal);
  \<^item> \<open>db_fault\<close> does the same for the \<open>n\<close>-th call to the database server;
  \<^item> \<open>random_choice\<close> is the sequence of draws of \<^verbatim>\<open>random.choice\<close>;
  \<^item> \<open>py_repr\<close> is \<^verbatim>\<open>str()\<close> of a value that is not a string, used where an
    f-string formats a field of the specification.
\<close>

datatype kind = PersistentVolumeClaim | ConfigMap | Secret | Deployment | Service | Ingress
  | OdooInstance

datatype verb = Create | Read | Patch | Delete | PatchStatus

datatype db_op = Connect | Select | CreateUser | AlterUser | CreateDatabase | AlterDatabase
  | TerminateBackends | DropDatabase | DropRole

datatype level = INFO | WARNING | ERROR

record env =
  DEFAULT_ODOO_IMAGE :: string
  DEFAULT_STORAGE_CLASS :: string
  DEFAULT_INGRESS_CLASS :: string
  DB_HOST :: string
  DB_PORT :: string
  DB_ADMIN_USER :: string
  DB_ADMIN_PASSWORD_SECRET :: string
  DB_ADMIN_PASSWORD_SECRET_KEY :: string
  DB_ADMIN_PASSWORD_SECRET_NAMESPACE :: string
  psycopg2_installed :: bool
  api_fault :: "nat \<Rightarrow> verb \<Rightarrow> kind \<Rightarrow> (nat \<times> string) option"
  db_fault :: "nat \<Rightarrow> db_op \<Rightarrow> string option"
  random_choice :: "nat \<Rightarrow> nat"
  py_repr :: "json \<Rightarrow> string"

text \<open>
  Every call to the store is recorded with its outcome (\<open>failed\<close> is the HTTP status
  of the \<open>ApiException\<close>, or \<open>None\<close>), so that a property can speak of what the store
  reported. \<open>objects\<close> maps kind, namespace and name to the stored object; \<open>roles\<close>
  lists each role with its password and \<open>databases\<close> each database with its owner.
\<close>

record api_event =
  verb_of :: verb
  kind_of :: kind
  namespace_of :: string
  name_of :: string
  failed :: "nat option"

record world =
  objects :: "kind \<times> string \<times> string \<Rightarrow> json option"
  calls :: "api_event list"
  roles :: "(string \<times> string) list"
  databases :: "(string \<times> string) list"
  db_calls :: nat
  draws :: nat
  log :: "(level \<times> string) list"

type_synonym 'a io = "world \<Rightarrow> (exn + 'a) \<times> world"

definition io_return :: "'a \<Rightarrow> 'a io" where
  "io_return x = (\<lambda>w. (Inr x, w))"

definition io_lift :: "exn + 'a \<Rightarrow> 'a io" where
  "io_lift r = (\<lambda>w. (r, w))"

definition io_bind :: "'a io \<Rightarrow> ('a \<Rightarrow> 'b io) \<Rightarrow> 'b io" where
  "io_bind m f = (\<lambda>w. case m w of (Inl e, w') \<Rightarrow> (Inl e, w') | (Inr x, w') \<Rightarrow> f x w')"

definition io_try :: "'a io \<Rightarrow> (exn \<Rightarrow> 'a io) \<Rightarrow> 'a io" where
  "io_try m handler = (\<lambda>w. case m w of (Inl e, w') \<Rightarrow> handler e w' | (Inr x, w') \<Rightarrow> (Inr x, w'))"

definition logger :: "level \<Rightarrow> string \<Rightarrow> unit io" where
  "logger lvl msg = (\<lambda>w. (Inr (), w\<lparr>log := log w @ [(lvl, msg)]\<rparr>))"

definition py_str :: "env \<Rightarrow> json \<Rightarrow> string" where
  "py_str env v = (case v of JStr s \<Rightarrow> s | _ \<Rightarrow> py_repr env v)"

subsection \<open>The store's interface\<close>

text \<open>
  The contract of the cluster store, as the handlers rely on it: a create of a name that
  exists is refused with 409, a read, patch or delete of a name that does not exist with
  404, and any call may fail with the status the fault parameter chooses. A patch is a
  JSON merge patch (RFC 7386): members of the body overwrite the stored ones, recursively
  through objects, and a \<open>null\<close> member removes the stored one. The members of the
  body are applied from the last to the first, so that the member that counts for a key
  is the one that a lookup of the key finds.
\<close>

fun merge_patch :: "json \<Rightarrow> json \<Rightarrow> json"
  and merge_fields :: "(string \<times> json) list \<Rightarrow> (string \<times> json) list \<Rightarrow> (string \<times> json) list"
where
  "merge_patch target (JObj ps) =
     JObj (merge_fields (case target of JObj ts \<Rightarrow> ts | _ \<Rightarrow> []) ps)"
| "merge_patch target JNull = JNull"
| "merge_patch target (JBool b) = JBool b"
| "merge_patch target (JInt i) = JInt i"
| "merge_patch target (JStr s) = JStr s"
| "merge_patch target (JList xs) = JList xs"
| "merge_fields ts [] = ts"
| "merge_fields ts ((k, v) # ps) =
     (let merged = merge_fields ts ps in
      if v = JNull then AList.delete k merged
      else AList.update k
             (merge_patch (case map_of ts k of Some t \<Rightarrow> t | None \<Rightarrow> JNull) v) merged)"

definition record_call :: "verb \<Rightarrow> kind \<Rightarrow> string \<Rightarrow> string \<Rightarrow> nat option \<Rightarrow> world \<Rightarrow> world" where
  "record_call v k namespace name status w =
     w\<lparr>calls := calls w @ [\<lparr>verb_of = v, kind_of = k, namespace_of = namespace,
                              name_of = name, failed = status\<rparr>]\<rparr>"

definition api_fail :: "verb \<Rightarrow> kind \<Rightarrow> string \<Rightarrow> string \<Rightarrow> nat \<Rightarrow> string \<Rightarrow> 'a io" where
  "api_fail v k namespace name status reason =
     (\<lambda>w. (Inl (ApiException status reason), record_call v k namespace name (Some status) w))"

definition api_ok :: "verb \<Rightarrow> kind \<Rightarrow> string \<Rightarrow> string \<Rightarrow> 'a \<Rightarrow> 'a io" where
  "api_ok v k namespace name x = (\<lambda>w. (Inr x, record_call v k namespace name None w))"

definition body_name :: "json \<Rightarrow> string" where
  "body_name body =
     (case bind (py_get body ''metadata'' JNull) (\<lambda>m. py_get m ''name'' JNull) of
        Inr (JStr n) \<Rightarrow> n
      | _ \<Rightarrow> [])"

definition create_namespaced :: "env \<Rightarrow> kind \<Rightarrow> string \<Rightarrow> json \<Rightarrow> unit io" where
  "create_namespaced env k namespace body = (\<lambda>w.
     let name = body_name body in
     case api_fault env (length (calls w)) Create k of
       Some (status, reason) \<Rightarrow> api_fail Create k namespace name status reason w
     | None \<Rightarrow>
         if name = [] then api_fail Create k namespace name 422 ''Unprocessable Entity'' w
         else if objects w (k, namespace, name) \<noteq> None
         then api_fail Create k namespace name 409 ''Conflict'' w
         else api_ok Create k namespace name ()
                (w\<lparr>objects := (objects w)((k, namespace, name) \<mapsto> body)\<rparr>))"

definition read_namespaced :: "env \<Rightarrow> kind \<Rightarrow> string \<Rightarrow> string \<Rightarrow> json io" where
  "read_namespaced env k name namespace = (\<lambda>w.
     case api_fault env (length (calls w)) Read k of
       Some (status, reason) \<Rightarrow> api_fail Read k namespace name status reason w
     | None \<Rightarrow>
         (case objects w (k, namespace, name) of
            None \<Rightarrow> api_fail Read k namespace name 404 ''Not Found'' w
          | Some obj \<Rightarrow> api_ok Read k namespace name obj w))"

definition patch_namespaced :: "env \<Rightarrow> kind \<Rightarrow> string \<Rightarrow> string \<Rightarrow> json \<Rightarrow> unit io" where
  "patch_namespaced env k name namespace body = (\<lambda>w.
     case api_fault env (length (calls w)) Patch k of
       Some (status, reason) \<Rightarrow> api_fail Patch k namespace name status reason w
     | None \<Rightarrow>
         (case objects w (k, namespace, name) of
            None \<Rightarrow> api_fail Patch k namespace name 404 ''Not Found'' w
          | Some obj \<Rightarrow>
              api_ok Patch k namespace name ()
                (w\<lparr>objects := (objects w)((k, namespace, name) \<mapsto> merge_patch obj body)\<rparr>)))"

definition delete_namespaced :: "env \<Rightarrow> kind \<Rightarrow> string \<Rightarrow> string \<Rightarrow> unit io" where
  "delete_namespaced env k name namespace = (\<lambda>w.
     case api_fault env (length (calls w)) Delete k of
       Some (status, reason) \<Rightarrow> api_fail Delete k namespace name status reason w
     | None \<Rightarrow>
         (case objects w (k, namespace, name) of
            None \<Rightarrow> api_fail Delete k namespace name 404 ''Not Found'' w
          | Some obj \<Rightarrow>
              api_ok Delete k namespace name ()
                (w\<lparr>objects := (objects w)((k, namespace, name) := None)\<rparr>)))"

text \<open>
  The status subresource of the custom object: only the \<open>status\<close> member of the body
  is merged, into the stored \<open>status\<close>.
\<close>

definition patch_namespaced_custom_object_status ::
  "env \<Rightarrow> string \<Rightarrow> string \<Rightarrow> json \<Rightarrow> unit io" where
  "patch_namespaced_custom_object_status env namespace name body = (\<lambda>w.
     case api_fault env (length (calls w)) PatchStatus OdooInstance of
       Some (status, reason) \<Rightarrow> api_fail PatchStatus OdooInstance namespace name status reason w
     | None \<Rightarrow>
         (case objects w (OdooInstance, namespace, name) of
            None \<Rightarrow> api_fail PatchStatus OdooInstance namespace name 404 ''Not Found'' w
          | Some obj \<Rightarrow>
              (case (obj, py_get body ''status'' JNull) of
                 (JObj members, Inr (JObj status_patch)) \<Rightarrow>
                   api_ok PatchStatus OdooInstance namespace name ()
                     (w\<lparr>objects := (objects w)((OdooInstance, namespace, name) \<mapsto>
                          JObj (AList.update ''status''
                                  (merge_patch (case map_of members ''status'' of
                                                  Some s \<Rightarrow> s | None \<Rightarrow> JNull)
                                               (JObj status_patch))
                                  members))\<rparr>)
               | _ \<Rightarrow> api_ok PatchStatus OdooInstance namespace name () w)))"

text \<open>
  \<^verbatim>\<open>custom_objects.get_namespaced_custom_object(...)['metadata']['uid']\<close>, evaluated
  inside every manifest for the owner reference.
\<close>

definition owner_uid :: "env \<Rightarrow> string \<Rightarrow> string \<Rightarrow> json io" where
  "owner_uid env name namespace =
     io_bind (read_namespaced env OdooInstance name namespace) (\<lambda>obj.
     io_lift (bind (py_getitem obj ''metadata'') (\<lambda>m. py_getitem m ''uid'')))"

definition GROUP :: string where "GROUP = ''odoo.bemade.org''"
definition VERSION :: string where "VERSION = ''v1''"

definition owner_references :: "string \<Rightarrow> json \<Rightarrow> json" where
  "owner_references name uid =
     JList [JObj [(''apiVersion'', JStr (GROUP @ ''/'' @ VERSION)),
                  (''kind'', JStr ''OdooInstance''),
                  (''name'', JStr name),
                  (''uid'', uid),
                  (''controller'', JBool True),
                  (''blockOwnerDeletion'', JBool True)]]"

section \<open>Resource synthesis and idempotent apply\<close>

text \<open>
  A Python module binds a name to the last \<^verbatim>\<open>def\<close> executed for it. The source
  defines \<^verbatim>\<open>create_deployment\<close> (lines 641 and 1098), \<^verbatim>\<open>create_service\<close> (lines
  922 and 1305) and \<^verbatim>\<open>create_ingress\<close> (lines 991 and 1369) twice; every call in a
  handler, made long after the module has loaded, reaches the later definition. The
  later definitions carry the source's names here; the earlier ones, which no call
  reaches, carry the suffix \<open>_shadowed\<close>.
\<close>

subsection \<open>Create, skipping an object that exists\<close>

text \<open>
  Every \<^verbatim>\<open>create_*\<close> function ends with the same statement: the store's create
  call in a \<^verbatim>\<open>try\<close>, whose \<^verbatim>\<open>except ApiException\<close> clause logs and returns when
  the status is 409 and re-raises otherwise. The functions differ in the kind, in the
  manifest, in the message logged on 409, and in whether a line is logged after a
  successful create.
\<close>

definition create_skipping_conflict ::
  "env \<Rightarrow> kind \<Rightarrow> string \<Rightarrow> json \<Rightarrow> string option \<Rightarrow> string \<Rightarrow> unit io" where
  "create_skipping_conflict env k namespace body created_msg exists_msg =
     io_try
       (io_bind (create_namespaced env k namespace body) (\<lambda>_.
          case created_msg of None \<Rightarrow> io_return () | Some m \<Rightarrow> logger INFO m))
       (\<lambda>e. case e of
              ApiException status reason \<Rightarrow>
                if status = 409 then logger INFO exists_msg else io_lift (Inl e)
            | _ \<Rightarrow> io_lift (Inl e))"

definition standard_labels :: "string \<Rightarrow> (string \<times> json) list" where
  "standard_labels name =
     [(''app.kubernetes.io/name'', JStr ''odoo''),
      (''app.kubernetes.io/instance'', JStr name),
      (''app.kubernetes.io/managed-by'', JStr ''odoo-operator'')]"

definition selector_labels :: "string \<Rightarrow> (string \<times> json) list" where
  "selector_labels name =
     [(''app.kubernetes.io/name'', JStr ''odoo''),
      (''app.kubernetes.io/instance'', JStr name)]"

subsection \<open>Volumes\<close>

definition pvc_manifest ::
  "string \<Rightarrow> string \<Rightarrow> string \<Rightarrow> string \<Rightarrow> json \<Rightarrow> json \<Rightarrow> json \<Rightarrow> json" where
  "pvc_manifest pvc_name name namespace component storage_size storage_class uid =
     JObj [(''apiVersion'', JStr ''v1''),
           (''kind'', JStr ''PersistentVolumeClaim''),
           (''metadata'', JObj
              [(''name'', JStr pvc_name),
               (''namespace'', JStr namespace),
               (''labels'', JObj (standard_labels name
                                  @ [(''app.kubernetes.io/component'', JStr component)])),
               (''ownerReferences'', owner_references name uid)]),
           (''spec'', JObj
              [(''accessModes'', JList [JStr ''ReadWriteOnce'']),
               (''resources'', JObj [(''requests'', JObj [(''storage'', storage_size)])]),
               (''storageClassName'', storage_class)])]"

text \<open>\<^verbatim>\<open>create_database_pvc\<close>, lines 377 to 439. No handler calls it.\<close>

definition create_database_pvc :: "env \<Rightarrow> string \<Rightarrow> string \<Rightarrow> json \<Rightarrow> unit io" where
  "create_database_pvc env name namespace spec =
     io_bind (io_lift (py_get spec ''database'' (JObj []))) (\<lambda>db_spec.
     io_bind (io_lift (py_get db_spec ''storageSize'' (JStr ''10Gi''))) (\<lambda>storage_size.
     io_bind (io_lift (py_get db_spec ''storageClass'' (JStr (DEFAULT_STORAGE_CLASS env))))
       (\<lambda>storage_class.
     let pvc_name = ''odoo-db-'' @ name in
     io_bind (owner_uid env name namespace) (\<lambda>uid.
     create_skipping_conflict env PersistentVolumeClaim namespace
       (pvc_manifest pvc_name name namespace ''database'' storage_size storage_class uid)
       None
       (''PVC '' @ pvc_name @ '' already exists, skipping creation'')))))"

text \<open>\<^verbatim>\<open>create_filestore_pvc\<close>, lines 577 to 639.\<close>

definition create_filestore_pvc :: "env \<Rightarrow> string \<Rightarrow> string \<Rightarrow> json \<Rightarrow> unit io" where
  "create_filestore_pvc env name namespace spec =
     io_bind (io_lift (py_get spec ''filestore'' (JObj []))) (\<lambda>filestore_spec.
     io_bind (io_lift (py_get filestore_spec ''storageSize'' (JStr ''10Gi''))) (\<lambda>storage_size.
     io_bind (io_lift (py_get filestore_spec ''storageClass'' (JStr (DEFAULT_STORAGE_CLASS env))))
       (\<lambda>storage_class.
     let pvc_name = ''odoo-filestore-'' @ name in
     io_bind (owner_uid env name namespace) (\<lambda>uid.
     create_skipping_conflict env PersistentVolumeClaim namespace
       (pvc_manifest pvc_name name namespace ''filestore'' storage_size storage_class uid)
       None
       (''PVC '' @ pvc_name @ '' already exists, skipping creation'')))))"

subsection \<open>Configuration\<close>

definition odoo_conf :: string where
  "odoo_conf =
     concat (map (\<lambda>line. line @ [CHR 0x0A])
       ['''',
        ''[options]'',
        ''; This is the password that allows database operations:'',
        ''admin_passwd = $ODOO_ADMIN_PASSWORD'',
        ''db_host = $ODOO_DB_HOST'',
        ''db_port = $ODOO_DB_PORT'',
        ''db_user = $ODOO_DB_USER'',
        ''db_password = $ODOO_DB_PASSWORD'',
        ''addons_path = /mnt/extra-addons'',
        ''data_dir = /var/lib/odoo'',
        ''proxy_mode = True''])"

definition config_map_manifest :: "string \<Rightarrow> string \<Rightarrow> string \<Rightarrow> json \<Rightarrow> json" where
  "config_map_manifest config_map_name name namespace uid =
     JObj [(''apiVersion'', JStr ''v1''),
           (''kind'', JStr ''ConfigMap''),
           (''metadata'', JObj
              [(''name'', JStr config_map_name),
               (''namespace'', JStr namespace),
               (''labels'', JObj (standard_labels name)),
               (''ownerReferences'', owner_references name uid)]),
           (''data'', JObj [(''odoo.conf'', JStr odoo_conf)])]"

text \<open>\<^verbatim>\<open>create_config_map\<close>, lines 441 to 506.\<close>

definition create_config_map :: "env \<Rightarrow> string \<Rightarrow> string \<Rightarrow> json \<Rightarrow> unit io" where
  "create_config_map env name namespace spec =
     (let config_map_name = ''odoo-config-'' @ name in
      io_bind (owner_uid env name namespace) (\<lambda>uid.
      create_skipping_conflict env ConfigMap namespace
        (config_map_manifest config_map_name name namespace uid)
        None
        (''ConfigMap '' @ config_map_name @ '' already exists, skipping creation'')))"

text \<open>
  \<^verbatim>\<open>update_config_map\<close>, lines 508 to 541: the object read is sent back as the patch;
  a 404 from either call falls back to the create.
\<close>

definition update_config_map :: "env \<Rightarrow> string \<Rightarrow> string \<Rightarrow> json \<Rightarrow> unit io" where
  "update_config_map env name namespace spec =
     (let config_map_name = ''odoo-config-'' @ name in
      io_try
        (io_bind (read_namespaced env ConfigMap config_map_name namespace) (\<lambda>current_cm.
         patch_namespaced env ConfigMap config_map_name namespace current_cm))
        (\<lambda>e. case e of
               ApiException status reason \<Rightarrow>
                 if status = 404 then create_config_map env name namespace spec
                 else io_lift (Inl e)
             | _ \<Rightarrow> io_lift (Inl e)))"

subsection \<open>Service\<close>

definition service_manifest :: "string \<Rightarrow> string \<Rightarrow> json \<Rightarrow> json" where
  "service_manifest name namespace uid =
     JObj [(''apiVersion'', JStr ''v1''),
           (''kind'', JStr ''Service''),
           (''metadata'', JObj
              [(''name'', JStr name),
               (''namespace'', JStr namespace),
               (''labels'', JObj (standard_labels name)),
               (''ownerReferences'', owner_references name uid)]),
           (''spec'', JObj
              [(''selector'', JObj (selector_labels name)),
               (''ports'', JList
                  [JObj [(''name'', JStr ''http''), (''port'', JInt 80),
                         (''targetPort'', JStr ''http''), (''protocol'', JStr ''TCP'')],
                   JObj [(''name'', JStr ''longpolling''), (''port'', JInt 8072),
                         (''targetPort'', JStr ''longpolling''), (''protocol'', JStr ''TCP'')]])])]"

text \<open>\<^verbatim>\<open>create_service\<close>, lines 1305 to 1367.\<close>

definition create_service :: "env \<Rightarrow> string \<Rightarrow> string \<Rightarrow> json \<Rightarrow> unit io" where
  "create_service env name namespace spec =
     io_bind (owner_uid env name namespace) (\<lambda>uid.
     create_skipping_conflict env Service namespace
       (service_manifest name namespace uid)
       (Some (''Created Service: '' @ name @ '' in namespace: '' @ namespace))
       (''Service '' @ name @ '' already exists in namespace: '' @ namespace))"

definition service_manifest_shadowed :: "string \<Rightarrow> string \<Rightarrow> json \<Rightarrow> json" where
  "service_manifest_shadowed name namespace uid =
     JObj [(''apiVersion'', JStr ''v1''),
           (''kind'', JStr ''Service''),
           (''metadata'', JObj
              [(''name'', JStr (''odoo-'' @ name)),
               (''namespace'', JStr namespace),
               (''labels'', JObj (standard_labels name)),
               (''ownerReferences'', owner_references name uid)]),
           (''spec'', JObj
              [(''ports'', JList
                  [JObj [(''name'', JStr ''http''), (''port'', JInt 80),
                         (''targetPort'', JInt 8069), (''protocol'', JStr ''TCP'')],
                   JObj [(''name'', JStr ''longpolling''), (''port'', JInt 8072),
                         (''targetPort'', JInt 8072), (''protocol'', JStr ''TCP'')]]),
               (''selector'', JObj (selector_labels name)),
               (''type'', JStr ''ClusterIP'')])]"

text \<open>The earlier \<^verbatim>\<open>create_service\<close>, lines 922 to 989.\<close>

definition create_service_shadowed :: "env \<Rightarrow> string \<Rightarrow> string \<Rightarrow> json \<Rightarrow> unit io" where
  "create_service_shadowed env name namespace spec =
     io_bind (owner_uid env name namespace) (\<lambda>uid.
     create_skipping_conflict env Service namespace
       (service_manifest_shadowed name namespace uid)
       None
       (''Service odoo-'' @ name @ '' already exists, skipping creation''))"

text \<open>
  \<^verbatim>\<open>update_service\<close>, lines 543 to 575: it reads \<open>odoo-<name>\<close> and changes
  nothing; on 404 it calls \<^verbatim>\<open>create_service\<close>.
\<close>

definition update_service :: "env \<Rightarrow> string \<Rightarrow> string \<Rightarrow> json \<Rightarrow> unit io" where
  "update_service env name namespace spec =
     (let service_name = ''odoo-'' @ name in
      io_try
        (io_bind (read_namespaced env Service service_name namespace) (\<lambda>current_svc.
         io_return ()))
        (\<lambda>e. case e of
               ApiException status reason \<Rightarrow>
                 if status = 404 then create_service env name namespace spec
                 else io_lift (Inl e)
             | _ \<Rightarrow> io_lift (Inl e)))"

section \<open>Database lifecycle\<close>

subsection \<open>Decoding the administrator's password\<close>

text \<open>
  \<^verbatim>\<open>base64.b64decode\<close> in its default, lenient mode, after CPython's
  \<^verbatim>\<open>binascii.a2b_base64\<close>: characters outside the alphabet are skipped, padding that
  completes a group ends the input, and a group left incomplete is an error.
  \<open>quad_pos\<close> is the position in the group of four, \<open>leftchar\<close> the bits not yet written.
\<close>

fun find_index_of :: "char \<Rightarrow> string \<Rightarrow> nat" where
  "find_index_of c [] = 0"
| "find_index_of c (x # xs) = (if c = x then 0 else Suc (find_index_of c xs))"

fun a2b_base64 :: "nat \<Rightarrow> nat \<Rightarrow> nat \<Rightarrow> string \<Rightarrow> exn + string" where
  "a2b_base64 quad_pos leftchar pads [] =
     (if quad_pos \<noteq> 0 then Inl (ValueError ''Incorrect padding'') else Inr [])"
| "a2b_base64 quad_pos leftchar pads (c # cs) =
     (if c = CHR ''='' then
        (if quad_pos \<ge> 2 \<and> quad_pos + (pads + 1) \<ge> 4 then Inr []
         else a2b_base64 quad_pos leftchar (if quad_pos \<ge> 2 then pads + 1 else pads) cs)
      else if c \<notin> set b64_alphabet then a2b_base64 quad_pos leftchar pads cs
      else
        (let this_ch = find_index_of c b64_alphabet in
         if quad_pos = 0 then a2b_base64 1 this_ch 0 cs
         else if quad_pos = 1 then
           map_sum id ((#) (char_of (leftchar * 4 + this_ch div 16)))
             (a2b_base64 2 (this_ch mod 16) 0 cs)
         else if quad_pos = 2 then
           map_sum id ((#) (char_of (leftchar * 16 + this_ch div 4)))
             (a2b_base64 3 (this_ch mod 4) 0 cs)
         else
           map_sum id ((#) (char_of (leftchar * 64 + this_ch)))
             (a2b_base64 0 0 0 cs)))"

definition b64decode :: "string \<Rightarrow> exn + string" where
  "b64decode s =
     (if \<exists>c \<in> set s. 127 < (of_char c :: nat)
      then Inl (ValueError ''string argument should contain only ASCII characters'')
      else a2b_base64 0 0 0 s)"

text \<open>
  \<^verbatim>\<open>bytes.decode('utf-8')\<close> raises on a byte sequence that is not well-formed UTF-8.
  The decoded password is only handed on to the database driver, so the model keeps it
  in its encoded form.
\<close>

definition cont :: "char \<Rightarrow> bool" where
  "cont c = (128 \<le> (of_char c :: nat) \<and> (of_char c :: nat) \<le> 191)"

function utf8_valid :: "string \<Rightarrow> bool" where
  "utf8_valid [] = True"
| "utf8_valid (a # rest) =
     (let x = (of_char a :: nat) in
      if x < 128 then utf8_valid rest
      else if 194 \<le> x \<and> x \<le> 223 then
        (case rest of b # r \<Rightarrow> cont b \<and> utf8_valid r | _ \<Rightarrow> False)
      else if 224 \<le> x \<and> x \<le> 239 then
        (case rest of
           b # c # r \<Rightarrow>
             cont b \<and> cont c
             \<and> (x = 224 \<longrightarrow> 160 \<le> (of_char b :: nat))
             \<and> (x = 237 \<longrightarrow> (of_char b :: nat) \<le> 159)
             \<and> utf8_valid r
         | _ \<Rightarrow> False)
      else if 240 \<le> x \<and> x \<le> 244 then
        (case rest of
           b # c # d # r \<Rightarrow>
             cont b \<and> cont c \<and> cont d
             \<and> (x = 240 \<longrightarrow> 144 \<le> (of_char b :: nat))
             \<and> (x = 244 \<longrightarrow> (of_char b :: nat) \<le> 143)
             \<and> utf8_valid r
         | _ \<Rightarrow> False)
      else False)"
  by pat_completeness auto
termination
  by (relation "measure length") auto

definition utf8_decode :: "string \<Rightarrow> exn + string" where
  "utf8_decode bytes =
     (if utf8_valid bytes then Inr bytes
      else Inl (ValueError ''utf-8 codec cannot decode bytes''))"

subsection \<open>The database server\<close>

text \<open>
  The statements that the program sends through \<^verbatim>\<open>psycopg2\<close>, with PostgreSQL's
  answers: a role that exists cannot be created, a role or database that does not exist
  cannot be altered, a role that still owns a database cannot be dropped. Each statement
  may also fail as the fault parameter chooses (server unreachable, permission denied).
\<close>

definition db_call :: "env \<Rightarrow> db_op \<Rightarrow> 'a io \<Rightarrow> 'a io" where
  "db_call env op effect = (\<lambda>w.
     let w' = w\<lparr>db_calls := Suc (db_calls w)\<rparr> in
     case db_fault env (db_calls w) op of
       Some msg \<Rightarrow> (Inl (DatabaseError msg), w')
     | None \<Rightarrow> effect w')"

definition connect :: "env \<Rightarrow> string \<Rightarrow> unit io" where
  "connect env password = db_call env Connect (io_return ())"

definition role_exists :: "env \<Rightarrow> string \<Rightarrow> bool io" where
  "role_exists env db_user = db_call env Select (\<lambda>w. (Inr (map_of (roles w) db_user \<noteq> None), w))"

definition database_exists :: "env \<Rightarrow> string \<Rightarrow> bool io" where
  "database_exists env db_name =
     db_call env Select (\<lambda>w. (Inr (map_of (databases w) db_name \<noteq> None), w))"

definition create_user :: "env \<Rightarrow> string \<Rightarrow> string \<Rightarrow> unit io" where
  "create_user env db_user db_password = db_call env CreateUser (\<lambda>w.
     if map_of (roles w) db_user \<noteq> None then (Inl (DatabaseError ''role already exists''), w)
     else (Inr (), w\<lparr>roles := AList.update db_user db_password (roles w)\<rparr>))"

definition alter_user :: "env \<Rightarrow> string \<Rightarrow> string \<Rightarrow> unit io" where
  "alter_user env db_user db_password = db_call env AlterUser (\<lambda>w.
     if map_of (roles w) db_user = None then (Inl (DatabaseError ''role does not exist''), w)
     else (Inr (), w\<lparr>roles := AList.update db_user db_password (roles w)\<rparr>))"

definition create_database :: "env \<Rightarrow> string \<Rightarrow> string \<Rightarrow> unit io" where
  "create_database env db_name db_user = db_call env CreateDatabase (\<lambda>w.
     if map_of (databases w) db_name \<noteq> None then (Inl (DatabaseError ''database already exists''), w)
     else if map_of (roles w) db_user = None then (Inl (DatabaseError ''role does not exist''), w)
     else (Inr (), w\<lparr>databases := AList.update db_name db_user (databases w)\<rparr>))"

definition alter_database_owner :: "env \<Rightarrow> string \<Rightarrow> string \<Rightarrow> unit io" where
  "alter_database_owner env db_name db_user = db_call env AlterDatabase (\<lambda>w.
     if map_of (databases w) db_name = None then (Inl (DatabaseError ''database does not exist''), w)
     else if map_of (roles w) db_user = None then (Inl (DatabaseError ''role does not exist''), w)
     else (Inr (), w\<lparr>databases := AList.update db_name db_user (databases w)\<rparr>))"

definition terminate_backends :: "env \<Rightarrow> string \<Rightarrow> unit io" where
  "terminate_backends env db_name = db_call env TerminateBackends (io_return ())"

definition drop_database_if_exists :: "env \<Rightarrow> string \<Rightarrow> unit io" where
  "drop_database_if_exists env db_name = db_call env DropDatabase (\<lambda>w.
     (Inr (), w\<lparr>databases := AList.delete db_name (databases w)\<rparr>))"

definition drop_role_if_exists :: "env \<Rightarrow> string \<Rightarrow> unit io" where
  "drop_role_if_exists env db_user = db_call env DropRole (\<lambda>w.
     if db_user \<in> snd ` set (databases w)
     then (Inl (DatabaseError ''role cannot be dropped because some objects depend on it''), w)
     else (Inr (), w\<lparr>roles := AList.delete db_user (roles w)\<rparr>))"

subsection \<open>Credentials\<close>

text \<open>
  \<^verbatim>\<open>generate_db_password\<close>, lines 1710 to 1720: sixteen draws from the letters and
  digits.
\<close>

definition password_alphabet :: string where
  "password_alphabet = ''abcdefghijklmnopqrstuvwxyzABCDEFGHIJKLMNOPQRSTUVWXYZ0123456789''"

definition generate_db_password :: "env \<Rightarrow> string io" where
  "generate_db_password env = (\<lambda>w.
     (Inr (map (\<lambda>i. password_alphabet ! (random_choice env (draws w + i) mod 62)) [0..<16]),
      w\<lparr>draws := draws w + 16\<rparr>))"

definition secret_manifest ::
  "env \<Rightarrow> string \<Rightarrow> string \<Rightarrow> string \<Rightarrow> string \<Rightarrow> string option \<Rightarrow> json \<Rightarrow> json" where
  "secret_manifest env name namespace db_user db_password db_name uid =
     JObj [(''apiVersion'', JStr ''v1''),
           (''kind'', JStr ''Secret''),
           (''metadata'', JObj
              [(''name'', JStr (''odoo-db-credentials-'' @ name)),
               (''namespace'', JStr namespace),
               (''labels'', JObj (standard_labels name)),
               (''ownerReferences'', owner_references name uid)]),
           (''type'', JStr ''Opaque''),
           (''data'', JObj
              ([(''host'', JStr (b64encode (utf8_encode (DB_HOST env)))),
                (''port'', JStr (b64encode (utf8_encode (DB_PORT env)))),
                (''username'', JStr (b64encode (utf8_encode db_user))),
                (''password'', JStr (b64encode (utf8_encode db_password)))]
               @ (case db_name of
                    None \<Rightarrow> []
                  | Some n \<Rightarrow>
                      if n = [] then []
                      else [(''database'', JStr (b64encode (utf8_encode n)))])))]"

text \<open>
  \<^verbatim>\<open>create_db_credentials_secret\<close>, lines 1617 to 1678. The only call to the store
  is a create; when the secret exists the function logs that it skips the creation.
\<close>

definition create_db_credentials_secret ::
  "env \<Rightarrow> string \<Rightarrow> string \<Rightarrow> string \<Rightarrow> string \<Rightarrow> string option \<Rightarrow> unit io" where
  "create_db_credentials_secret env name namespace db_user db_password db_name =
     (let secret_name = ''odoo-db-credentials-'' @ name in
      io_bind (owner_uid env name namespace) (\<lambda>uid.
      create_skipping_conflict env Secret namespace
        (secret_manifest env name namespace db_user db_password db_name uid)
        (Some (''Created Secret '' @ secret_name @ '' for database credentials''))
        (''Secret '' @ secret_name @ '' already exists, skipping creation'')))"

text \<open>
  The administrator's password (lines 1535 to 1547 and 273 to 285): read the secret,
  take the key from its \<open>data\<close>, decode it. Only an \<open>ApiException\<close> is logged before
  it is raised again.
\<close>

definition import_psycopg2 :: "env \<Rightarrow> unit io" where
  "import_psycopg2 env =
     (if psycopg2_installed env then io_return ()
      else io_bind
             (logger ERROR (''psycopg2 is not installed. Please install it with ''
                            @ [CHR 0x27] @ ''pip install psycopg2-binary'' @ [CHR 0x27]))
             (\<lambda>_. io_lift (Inl (ImportError ''No module named psycopg2''))))"

definition decode_secret_value :: "json \<Rightarrow> exn + string" where
  "decode_secret_value v =
     (case v of
        JStr s \<Rightarrow> bind (b64decode s) utf8_decode
      | _ \<Rightarrow> Inl (TypeError ''argument should be a bytes-like object or ASCII string''))"

definition read_admin_password :: "env \<Rightarrow> string \<Rightarrow> string io" where
  "read_admin_password env namespace =
     io_try
       (let secret_namespace =
              (if DB_ADMIN_PASSWORD_SECRET_NAMESPACE env \<noteq> []
               then DB_ADMIN_PASSWORD_SECRET_NAMESPACE env else namespace)
        in io_bind (read_namespaced env Secret (DB_ADMIN_PASSWORD_SECRET env) secret_namespace)
             (\<lambda>secret.
           io_lift (bind (py_get secret ''data'' JNull) (\<lambda>data.
                    bind (py_getitem data (DB_ADMIN_PASSWORD_SECRET_KEY env))
                      decode_secret_value))))
       (\<lambda>e. case e of
              ApiException status reason \<Rightarrow>
                io_bind (logger ERROR (''Error reading admin password secret: '' @ str_exn e))
                  (\<lambda>_. io_lift (Inl e))
            | _ \<Rightarrow> io_lift (Inl e))"

subsection \<open>Provisioning\<close>

text \<open>
  \<^verbatim>\<open>create_database_user\<close>, lines 1506 to 1615. It returns the user name, the
  password and the database name.
\<close>

definition create_database_user ::
  "env \<Rightarrow> string \<Rightarrow> string \<Rightarrow> string option \<Rightarrow> (string \<times> string \<times> string) io" where
  "create_database_user env name namespace db_password_arg =
     (let db_name = generate_db_name name namespace;
          db_user = generate_db_username name namespace
      in
      io_bind (case db_password_arg of
                 None \<Rightarrow> generate_db_password env
               | Some p \<Rightarrow> io_return p) (\<lambda>db_password.
      io_bind (import_psycopg2 env) (\<lambda>_.
      io_bind (read_admin_password env namespace) (\<lambda>admin_password.
      io_try
        (io_bind (connect env admin_password) (\<lambda>_.
         io_bind (role_exists env db_user) (\<lambda>user_found.
         io_bind (if \<not> user_found
                  then io_bind (create_user env db_user db_password) (\<lambda>_.
                       logger INFO (''Created database user '' @ db_user))
                  else io_bind (alter_user env db_user db_password) (\<lambda>_.
                       logger INFO (''Updated password for database user '' @ db_user)))
           (\<lambda>_.
         io_bind (database_exists env db_name) (\<lambda>database_found.
         io_bind (if \<not> database_found
                  then io_bind (create_database env db_name db_user) (\<lambda>_.
                       logger INFO (''Created database '' @ db_name @ '' owned by '' @ db_user))
                  else io_bind (alter_database_owner env db_name db_user) (\<lambda>_.
                       logger INFO (''Updated owner of database '' @ db_name @ '' to ''
                                    @ db_user)))
           (\<lambda>_.
         io_bind (create_db_credentials_secret env name namespace db_user db_password
                    (Some db_name)) (\<lambda>_.
         io_return (db_user, db_password, db_name))))))))
        (\<lambda>e. io_bind (logger ERROR (''Error creating database user or database: '' @ str_exn e))
                (\<lambda>_. io_lift (Inl e)))))))"

subsection \<open>Deletion\<close>

text \<open>
  \<^verbatim>\<open>delete_odoo_instance\<close>, lines 234 to 339. The whole clean-up is the body of one
  \<^verbatim>\<open>try\<close> whose \<^verbatim>\<open>except Exception\<close> clause logs two warnings; the statements
  after it log the deletion and return the result.
\<close>

definition cleanup_database :: "env \<Rightarrow> string \<Rightarrow> string \<Rightarrow> unit io" where
  "cleanup_database env name namespace =
     (let db_name = generate_db_name name namespace;
          db_user = generate_db_username name namespace
      in
      io_bind (import_psycopg2 env) (\<lambda>_.
      io_bind (read_admin_password env namespace) (\<lambda>admin_password.
      io_bind (connect env admin_password) (\<lambda>_.
      io_bind (database_exists env db_name) (\<lambda>database_found.
      io_bind (if database_found
               then io_bind (terminate_backends env db_name) (\<lambda>_.
                    io_bind (drop_database_if_exists env db_name) (\<lambda>_.
                    logger INFO (''Dropped database '' @ db_name)))
               else io_return ()) (\<lambda>_.
      io_bind (role_exists env db_user) (\<lambda>user_found.
      if user_found
      then io_bind (drop_role_if_exists env db_user) (\<lambda>_.
           logger INFO (''Dropped database user '' @ db_user))
      else io_return ())))))))"

definition delete_result :: json where
  "delete_result =
     JObj [(''status'', JStr ''success''),
           (''message'', JStr ''Odoo instance deleted successfully'')]"

definition delete_odoo_instance :: "env \<Rightarrow> string \<Rightarrow> string \<Rightarrow> json io" where
  "delete_odoo_instance env name namespace =
     io_bind (logger INFO (''Deleting OdooInstance: '' @ name @ '' in namespace: '' @ namespace))
       (\<lambda>_.
     io_bind
       (io_try (cleanup_database env name namespace)
          (\<lambda>e. io_bind (logger WARNING (''Failed to clean up database user and database: ''
                                         @ str_exn e)) (\<lambda>_.
                logger WARNING (''Continuing with deletion, but database resources may not ''
                                @ ''be fully cleaned up''))))
       (\<lambda>_.
     io_bind (logger INFO (''OdooInstance '' @ name @ '' in namespace '' @ namespace
                           @ '' has been deleted'')) (\<lambda>_.
     io_return delete_result)))"

subsection \<open>Ingress\<close>

definition ingress_rules :: "json \<Rightarrow> string \<Rightarrow> json" where
  "ingress_rules hostname service_name =
     JList [JObj [(''host'', hostname),
                  (''http'', JObj [(''paths'', JList
                     [JObj [(''path'', JStr ''/''),
                            (''pathType'', JStr ''Prefix''),
                            (''backend'', JObj [(''service'', JObj
                               [(''name'', JStr service_name),
                                (''port'', JObj [(''name'', JStr ''http'')])])])]])])]]"

definition ingress_manifest ::
  "string \<Rightarrow> string \<Rightarrow> string \<Rightarrow> json \<Rightarrow> json \<Rightarrow> json \<Rightarrow> json list option \<Rightarrow> json \<Rightarrow> json"
where
  "ingress_manifest ingress_name name namespace hostname ingress_class annotations tls uid =
     JObj [(''apiVersion'', JStr ''networking.k8s.io/v1''),
           (''kind'', JStr ''Ingress''),
           (''metadata'', JObj
              [(''name'', JStr ingress_name),
               (''namespace'', JStr namespace),
               (''labels'', JObj (standard_labels name)),
               (''annotations'', annotations),
               (''ownerReferences'', owner_references name uid)]),
           (''spec'', JObj
              ([(''ingressClassName'', ingress_class),
                (''rules'', ingress_rules hostname ingress_name)]
               @ (case tls of None \<Rightarrow> [] | Some entries \<Rightarrow> [(''tls'', JList entries)])))]"

text \<open>
  \<^verbatim>\<open>create_ingress\<close>, lines 1369 to 1452, the definition that the handlers call. It
  reads the host name and uses it; no statement tests it.
\<close>

definition create_ingress :: "env \<Rightarrow> string \<Rightarrow> string \<Rightarrow> json \<Rightarrow> unit io" where
  "create_ingress env name namespace spec =
     io_bind (io_lift (py_get spec ''ingress'' (JObj []))) (\<lambda>ingress_spec.
     io_bind (io_lift (py_get ingress_spec ''hostname'' JNull)) (\<lambda>hostname.
     io_bind (io_lift (py_get ingress_spec ''className'' (JStr (DEFAULT_INGRESS_CLASS env))))
       (\<lambda>ingress_class.
     io_bind (io_lift (py_get ingress_spec ''annotations'' (JObj []))) (\<lambda>annotations.
     io_bind (io_lift (py_get ingress_spec ''tls'' (JBool True))) (\<lambda>tls.
     io_bind (io_lift (py_get ingress_spec ''tlsSecret'' (JStr (name @ ''-tls'')))) (\<lambda>tls_secret.
     io_bind (owner_uid env name namespace) (\<lambda>uid.
     create_skipping_conflict env Ingress namespace
       (ingress_manifest name name namespace hostname ingress_class annotations
          (if truthy tls
           then Some [JObj [(''hosts'', JList [hostname]), (''secretName'', tls_secret)]]
           else None)
          uid)
       (Some (''Created Ingress: '' @ name @ '' in namespace: '' @ namespace))
       (''Ingress '' @ name @ '' already exists in namespace: '' @ namespace))))))))"

text \<open>
  The earlier \<^verbatim>\<open>create_ingress\<close>, lines 991 to 1096, which no call reaches. It
  returns with a warning when the host name is missing or empty. Its \<^verbatim>\<open>except\<close>
  clause ends, after the test of the status, with a log line that formats the name
  \<^verbatim>\<open>pvc_name\<close> (line 1091), which the function never binds; the second
  \<^verbatim>\<open>except\<close> clause of the same \<^verbatim>\<open>try\<close> (lines 1092 to 1096) handles nothing,
  the first one having caught every \<open>ApiException\<close>.
\<close>

definition create_ingress_shadowed :: "env \<Rightarrow> string \<Rightarrow> string \<Rightarrow> json \<Rightarrow> unit io" where
  "create_ingress_shadowed env name namespace spec =
     io_bind (io_lift (py_get spec ''ingress'' (JObj []))) (\<lambda>ingress_spec.
     io_bind (io_lift (py_get ingress_spec ''hostname'' JNull)) (\<lambda>hostname.
     io_bind (io_lift (py_get ingress_spec ''className'' (JStr (DEFAULT_INGRESS_CLASS env))))
       (\<lambda>class_name.
     io_bind (io_lift (py_get ingress_spec ''tls'' (JBool True))) (\<lambda>tls_enabled.
     io_bind (io_lift (py_get ingress_spec ''tlsSecret'' JNull)) (\<lambda>tls_secret.
     io_bind (io_lift (py_get ingress_spec ''annotations'' (JObj []))) (\<lambda>annotations.
     if \<not> truthy hostname then
       logger WARNING (''Ingress hostname not specified for '' @ name
                       @ '', skipping ingress creation'')
     else
       io_bind (owner_uid env name namespace) (\<lambda>uid.
       io_try
         (create_namespaced env Ingress namespace
            (ingress_manifest (''odoo-'' @ name) name namespace hostname class_name annotations
               (if truthy tls_enabled
                then Some [JObj [(''hosts'', JList [hostname]),
                                 (''secretName'',
                                    if truthy tls_secret then tls_secret
                                    else JStr (''odoo-'' @ name @ ''-tls''))]]
                else None)
               uid))
         (\<lambda>e. case e of
                ApiException status reason \<Rightarrow>
                  if status = 409 then
                    io_bind (logger INFO (''Ingress odoo-'' @ name
                                          @ '' already exists, skipping creation'')) (\<lambda>_.
                    io_lift (Inl (NameError ''pvc_name'')))
                  else io_lift (Inl e)
              | _ \<Rightarrow> io_lift (Inl e)))))))))"

text \<open>
  Assignment to an attribute of an object read from the store
  (\<^verbatim>\<open>current.spec.rules[0].host = hostname\<close>): the path is followed through
  members and list positions, and the last step sets a member. A member that is absent
  reads as \<open>None\<close>, which has no attributes and cannot be indexed.
\<close>

datatype step = Attr string | Index nat

fun update_at :: "step list \<Rightarrow> (json \<Rightarrow> exn + json) \<Rightarrow> json \<Rightarrow> exn + json" where
  "update_at [] f v = f v"
| "update_at (Attr a # path) f (JObj ps) =
     bind (update_at path f (case map_of ps a of Some c \<Rightarrow> c | None \<Rightarrow> JNull))
       (\<lambda>c. Inr (JObj (AList.update a c ps)))"
| "update_at (Attr a # path) f v =
     Inl (AttributeError ([CHR 0x27] @ type_name v @ [CHR 0x27]
            @ '' object has no attribute '' @ [CHR 0x27] @ a @ [CHR 0x27]))"
| "update_at (Index i # path) f (JList xs) =
     (if i < length xs
      then bind (update_at path f (xs ! i)) (\<lambda>c. Inr (JList (xs[i := c])))
      else Inl (IndexError ''list index out of range''))"
| "update_at (Index i # path) f v =
     Inl (TypeError ([CHR 0x27] @ type_name v @ [CHR 0x27] @ '' object is not subscriptable''))"

definition set_attr :: "step list \<Rightarrow> string \<Rightarrow> json \<Rightarrow> json \<Rightarrow> exn + json" where
  "set_attr path a v obj =
     update_at path
       (\<lambda>target. case target of
                    JObj ps \<Rightarrow> Inr (JObj (AList.update a v ps))
                  | _ \<Rightarrow> Inl (AttributeError ([CHR 0x27] @ type_name target @ [CHR 0x27]
                                  @ '' object has no attribute '' @ [CHR 0x27] @ a @ [CHR 0x27])))
       obj"

text \<open>\<^verbatim>\<open>update_ingress\<close>, lines 1454 to 1504.\<close>

definition update_ingress :: "env \<Rightarrow> string \<Rightarrow> string \<Rightarrow> json \<Rightarrow> unit io" where
  "update_ingress env name namespace spec =
     io_try
       (io_bind (read_namespaced env Ingress name namespace) (\<lambda>current_ingress.
        io_bind (io_lift (py_get spec ''ingress'' (JObj []))) (\<lambda>ingress_spec.
        io_bind (io_lift (py_get ingress_spec ''hostname'' JNull)) (\<lambda>hostname.
        io_bind (io_lift (py_get ingress_spec ''className'' (JStr (DEFAULT_INGRESS_CLASS env))))
          (\<lambda>ingress_class.
        io_bind (io_lift (py_get ingress_spec ''annotations'' (JObj []))) (\<lambda>annotations.
        io_bind (io_lift (py_get ingress_spec ''tls'' (JBool True))) (\<lambda>tls.
        io_bind (io_lift (py_get ingress_spec ''tlsSecret'' (JStr (name @ ''-tls''))))
          (\<lambda>tls_secret.
        io_bind (io_lift
          (bind (set_attr [Attr ''spec''] ''ingressClassName'' ingress_class current_ingress)
             (\<lambda>c1.
           bind (if truthy hostname
                 then set_attr [Attr ''spec'', Attr ''rules'', Index 0] ''host'' hostname c1
                 else Inr c1) (\<lambda>c2.
           bind (if truthy annotations
                 then set_attr [Attr ''metadata''] ''annotations'' annotations c2
                 else Inr c2) (\<lambda>c3.
           set_attr [Attr ''spec''] ''tls''
             (if truthy tls
              then JList [JObj [(''hosts'', JList [hostname]), (''secretName'', tls_secret)]]
              else JList [])
             c3))))) (\<lambda>patched.
        io_bind (patch_namespaced env Ingress name namespace patched) (\<lambda>_.
        logger INFO (''Updated Ingress: '' @ name @ '' in namespace: '' @ namespace)))))))))))
       (\<lambda>e. case e of
              ApiException status reason \<Rightarrow>
                if status = 404 then create_ingress env name namespace spec
                else io_lift (Inl e)
            | _ \<Rightarrow> io_lift (Inl e))"

subsection \<open>Deployment\<close>

text \<open>Iteration over a value, as a \<^verbatim>\<open>for\<close> statement does it.\<close>

fun py_iter :: "json \<Rightarrow> exn + json list" where
  "py_iter (JList xs) = Inr xs"
| "py_iter (JObj ps) = Inr (map (\<lambda>kv. JStr (fst kv)) ps)"
| "py_iter (JStr s) = Inr (map (\<lambda>c. JStr [c]) s)"
| "py_iter v =
     Inl (TypeError ([CHR 0x27] @ type_name v @ [CHR 0x27] @ '' object is not iterable''))"

fun map_exn :: "('a \<Rightarrow> exn + 'b) \<Rightarrow> 'a list \<Rightarrow> exn + 'b list" where
  "map_exn f [] = Inr []"
| "map_exn f (x # xs) = bind (f x) (\<lambda>y. bind (map_exn f xs) (\<lambda>ys. Inr (y # ys)))"

definition container_ports :: json where
  "container_ports =
     JList [JObj [(''name'', JStr ''http''), (''containerPort'', JInt 8069),
                  (''protocol'', JStr ''TCP'')],
            JObj [(''name'', JStr ''longpolling''), (''containerPort'', JInt 8072),
                  (''protocol'', JStr ''TCP'')]]"

definition default_deployment_resources :: json where
  "default_deployment_resources =
     JObj [(''limits'', JObj [(''cpu'', JStr ''2''), (''memory'', JStr ''4Gi'')]),
           (''requests'', JObj [(''cpu'', JStr ''500m''), (''memory'', JStr ''1Gi'')])]"

text \<open>
  One turn of the loop over the addon repositories (lines 1207 to 1241): the scratch
  volume, the init container and the mount that the turn appends.
\<close>

definition addon_parts :: "env \<Rightarrow> nat \<times> json \<Rightarrow> exn + (json \<times> json \<times> json)" where
  "addon_parts env ia =
     (case ia of (i, addon) \<Rightarrow>
      bind (py_get addon ''repo'' JNull) (\<lambda>repo.
      bind (py_get addon ''branch'' (JStr ''main'')) (\<lambda>branch.
      bind (py_get addon ''path'' (JStr [])) (\<lambda>path.
      let volume_name = ''addon-'' @ str_nat i;
          mount_path = ''/mnt/addons/'' @ str_nat i;
          target_path = ''/mnt/extra-addons/'' @ str_nat i
      in Inr (JObj [(''name'', JStr volume_name), (''emptyDir'', JObj [])],
              JObj [(''name'', JStr (''clone-'' @ str_nat i)),
                    (''image'', JStr ''alpine/git''),
                    (''command'', JList [JStr ''git'', JStr ''clone'', JStr ''--depth'',
                                         JStr ''1'', JStr ''--branch'', branch, repo,
                                         JStr mount_path]),
                    (''volumeMounts'', JList [JObj [(''name'', JStr volume_name),
                                                    (''mountPath'', JStr mount_path)]])],
              JObj [(''name'', JStr volume_name),
                    (''mountPath'', JStr (if truthy path
                                          then target_path @ ''/'' @ py_str env path
                                          else target_path)),
                    (''subPath'', path)])))))"

definition deployment_manifest ::
  "string \<Rightarrow> string \<Rightarrow> json \<Rightarrow> json \<Rightarrow> json \<Rightarrow> json \<Rightarrow> json
     \<Rightarrow> (json \<times> json \<times> json) list option \<Rightarrow> json" where
  "deployment_manifest name namespace uid image_ref replicas resources env_list addons =
     JObj [(''apiVersion'', JStr ''apps/v1''),
           (''kind'', JStr ''Deployment''),
           (''metadata'', JObj
              [(''name'', JStr name),
               (''namespace'', JStr namespace),
               (''labels'', JObj (standard_labels name)),
               (''ownerReferences'', owner_references name uid)]),
           (''spec'', JObj
              [(''replicas'', replicas),
               (''selector'', JObj [(''matchLabels'', JObj (selector_labels name))]),
               (''template'', JObj
                  [(''metadata'', JObj [(''labels'', JObj (selector_labels name))]),
                   (''spec'', JObj
                      ([(''containers'', JList
                          [JObj [(''name'', JStr ''odoo''),
                                 (''image'', image_ref),
                                 (''ports'', container_ports),
                                 (''volumeMounts'', JList
                                    (JObj [(''name'', JStr ''filestore''),
                                           (''mountPath'', JStr ''/var/lib/odoo'')]
                                     # (case addons of
                                          None \<Rightarrow> []
                                        | Some parts \<Rightarrow> map (\<lambda>p. snd (snd p)) parts))),
                                 (''resources'', resources),
                                 (''env'', env_list)]]),
                        (''volumes'', JList
                           (JObj [(''name'', JStr ''filestore''),
                                  (''persistentVolumeClaim'', JObj
                                     [(''claimName'', JStr (name @ ''-filestore''))])]
                            # (case addons of
                                 None \<Rightarrow> []
                               | Some parts \<Rightarrow> map fst parts)))]
                       @ (case addons of
                            None \<Rightarrow> []
                          | Some parts \<Rightarrow>
                              [(''initContainers'',
                                JList (map (\<lambda>p. fst (snd p)) parts))])))])])]"

text \<open>
  \<^verbatim>\<open>create_deployment\<close>, lines 1098 to 1259, the definition that the handlers call.
  The container's environment is \<^verbatim>\<open>spec.get('env', [])\<close> (line 1119) as it stands;
  the function does not provision the database.
\<close>

definition deployment_image :: "env \<Rightarrow> json \<Rightarrow> exn + json" where
  "deployment_image env spec =
     bind (py_get spec ''image'' (JStr (DEFAULT_ODOO_IMAGE env))) (\<lambda>image.
     if \<not> truthy image
     then bind (py_get spec ''version'' (JStr ''17.0'')) (\<lambda>version.
          Inr (JStr (''odoo:'' @ py_str env version)))
     else Inr image)"

definition create_deployment :: "env \<Rightarrow> string \<Rightarrow> string \<Rightarrow> json \<Rightarrow> unit io" where
  "create_deployment env name namespace spec =
     io_bind (io_lift (deployment_image env spec)) (\<lambda>image.
     io_bind (io_lift (py_get spec ''replicas'' (JInt 1))) (\<lambda>replicas.
     io_bind (io_lift (py_get spec ''resources'' default_deployment_resources)) (\<lambda>resources.
     io_bind (io_lift (py_get spec ''env'' (JList []))) (\<lambda>env_list.
     io_bind (owner_uid env name namespace) (\<lambda>uid.
     io_bind (io_lift (py_get spec ''addons'' (JList []))) (\<lambda>addons.
     io_bind (io_lift (if truthy addons
                       then bind (py_iter addons) (\<lambda>items.
                            bind (map_exn (addon_parts env) (enumerate 0 items)) (\<lambda>parts.
                            Inr (Some parts)))
                       else Inr None)) (\<lambda>addon_parts_opt.
     create_skipping_conflict env Deployment namespace
       (deployment_manifest name namespace uid image replicas resources env_list
          addon_parts_opt)
       (Some (''Created Deployment: '' @ name @ '' in namespace: '' @ namespace))
       (''Deployment '' @ name @ '' already exists in namespace: '' @ namespace))))))))"

text \<open>
  \<^verbatim>\<open>update_deployment\<close>, lines 1261 to 1303. The values are read from the
  specification after the deployment has been read from the store.
\<close>

definition container0 :: "step list" where
  "container0 = [Attr ''spec'', Attr ''template'', Attr ''spec'', Attr ''containers'', Index 0]"

definition update_deployment :: "env \<Rightarrow> string \<Rightarrow> string \<Rightarrow> json \<Rightarrow> unit io" where
  "update_deployment env name namespace spec =
     io_try
       (io_bind (read_namespaced env Deployment name namespace) (\<lambda>current_deployment.
        io_bind (io_lift (deployment_image env spec)) (\<lambda>image.
        io_bind (io_lift (py_get spec ''replicas'' (JInt 1))) (\<lambda>replicas.
        io_bind (io_lift (py_get spec ''resources'' (JObj []))) (\<lambda>resources.
        io_bind (io_lift (py_get spec ''env'' (JList []))) (\<lambda>env_list.
        io_bind (io_lift
          (bind (set_attr [Attr ''spec''] ''replicas'' replicas current_deployment) (\<lambda>d1.
           bind (set_attr container0 ''image'' image d1) (\<lambda>d2.
           bind (if truthy resources then set_attr container0 ''resources'' resources d2
                 else Inr d2) (\<lambda>d3.
           if truthy env_list then set_attr container0 ''env'' env_list d3 else Inr d3)))))
          (\<lambda>patched.
        io_bind (patch_namespaced env Deployment name namespace patched) (\<lambda>_.
        logger INFO (''Updated Deployment: '' @ name @ '' in namespace: '' @ namespace)))))))))
       (\<lambda>e. case e of
              ApiException status reason \<Rightarrow>
                if status = 404 then create_deployment env name namespace spec
                else io_lift (Inl e)
            | _ \<Rightarrow> io_lift (Inl e))"

text \<open>
  The earlier \<^verbatim>\<open>create_deployment\<close>, lines 641 to 920, which no call reaches. Its
  environment list (lines 656 to 740) starts with six references to secrets and is then
  overlaid with the custom entries of the specification: for each custom entry, the
  first entry of the list with the same name, if there is one, is removed
  (\<^verbatim>\<open>env.remove(existing)\<close>) and the custom entry is appended. Names are compared
  as values; for names that are strings, which the \<^verbatim>\<open>EnvVar\<close> type of
  \<^verbatim>\<open>types.py\<close> requires, this is Python's \<^verbatim>\<open>==\<close>.
\<close>

definition secret_key_ref :: "string \<Rightarrow> json \<Rightarrow> json \<Rightarrow> json" where
  "secret_key_ref var secret key =
     JObj [(''name'', JStr var),
           (''valueFrom'', JObj [(''secretKeyRef'', JObj [(''name'', secret), (''key'', key)])])]"

definition base_env :: "string \<Rightarrow> json \<Rightarrow> json \<Rightarrow> json list" where
  "base_env name admin_secret_name admin_secret_key =
     (let secret_name = JStr (''odoo-db-credentials-'' @ name) in
      [secret_key_ref ''ODOO_DB_HOST'' secret_name (JStr ''host''),
       secret_key_ref ''ODOO_DB_PORT'' secret_name (JStr ''port''),
       secret_key_ref ''ODOO_DB_USER'' secret_name (JStr ''username''),
       secret_key_ref ''ODOO_DB_PASSWORD'' secret_name (JStr ''password''),
       secret_key_ref ''ODOO_DB_NAME'' secret_name (JStr ''database''),
       secret_key_ref ''ODOO_ADMIN_PASSWORD'' admin_secret_name admin_secret_key])"

fun find_existing :: "json list \<Rightarrow> json \<Rightarrow> exn + json option" where
  "find_existing [] env_var = Inr None"
| "find_existing (e # es) env_var =
     bind (py_getitem e ''name'') (\<lambda>e_name.
     bind (py_getitem env_var ''name'') (\<lambda>var_name.
     if e_name = var_name then Inr (Some e) else find_existing es env_var))"

fun overlay_env :: "json list \<Rightarrow> json list \<Rightarrow> exn + json list" where
  "overlay_env env_list [] = Inr env_list"
| "overlay_env env_list (env_var # rest) =
     bind (find_existing env_list env_var) (\<lambda>existing.
     overlay_env
       ((case existing of
           None \<Rightarrow> env_list
         | Some e \<Rightarrow> if truthy e then remove1 e env_list else env_list) @ [env_var])
       rest)"

definition deployment_env :: "string \<Rightarrow> json \<Rightarrow> exn + json list" where
  "deployment_env name spec =
     bind (py_get spec ''adminSecret'' (JObj [])) (\<lambda>admin_secret.
     bind (py_get admin_secret ''name'' (JStr ''odoo-admin-credentials'')) (\<lambda>admin_secret_name.
     bind (py_get admin_secret ''key'' (JStr ''admin-password'')) (\<lambda>admin_secret_key.
     let env_list = base_env name admin_secret_name admin_secret_key in
     bind (py_contains ''env'' spec) (\<lambda>has_env.
     if has_env then
       bind (py_getitem spec ''env'') (\<lambda>custom.
       if truthy custom then bind (py_iter custom) (overlay_env env_list)
       else Inr env_list)
     else Inr env_list))))"

definition probe :: "int \<Rightarrow> (string \<times> json) list \<Rightarrow> json" where
  "probe initial_delay thresholds =
     JObj ([(''httpGet'', JObj [(''path'', JStr ''/web/health''), (''port'', JStr ''http'')]),
            (''initialDelaySeconds'', JInt initial_delay),
            (''periodSeconds'', JInt 10),
            (''timeoutSeconds'', JInt 5)] @ thresholds)"

definition init_container_shadowed :: "env \<Rightarrow> nat \<times> json \<Rightarrow> exn + json" where
  "init_container_shadowed env ia =
     (case ia of (i, addon) \<Rightarrow>
      bind (py_get addon ''repo'' JNull) (\<lambda>repo.
      bind (py_get addon ''branch'' (JStr ''main'')) (\<lambda>branch.
      bind (py_get addon ''path'' (JStr [])) (\<lambda>path.
      Inr (JObj [(''name'', JStr (''clone-addons-'' @ str_nat i)),
                 (''image'', JStr ''alpine/git:latest''),
                 (''command'', JList [JStr ''sh'', JStr ''-c'']),
                 (''args'', JList
                    [JStr (''git clone --depth 1 --branch '' @ py_str env branch @ '' ''
                           @ py_str env repo @ '' /tmp/addons && ''
                           @ ''mkdir -p /mnt/extra-addons/'' @ str_nat i @ '' && ''
                           @ ''cp -r /tmp/addons/'' @ py_str env path
                           @ ''/* /mnt/extra-addons/'' @ str_nat i @ ''/'')]),
                 (''volumeMounts'', JList [JObj [(''name'', JStr ''odoo-addons''),
                                                 (''mountPath'', JStr ''/mnt/extra-addons'')]])])))))"

definition deployment_manifest_shadowed ::
  "string \<Rightarrow> string \<Rightarrow> json \<Rightarrow> json \<Rightarrow> json \<Rightarrow> json \<Rightarrow> json \<Rightarrow> json list \<Rightarrow> bool
     \<Rightarrow> json list option \<Rightarrow> json" where
  "deployment_manifest_shadowed name namespace uid version image_ref replicas resources env_list
     with_addons init_containers =
     JObj [(''apiVersion'', JStr ''apps/v1''),
           (''kind'', JStr ''Deployment''),
           (''metadata'', JObj
              [(''name'', JStr (''odoo-'' @ name)),
               (''namespace'', JStr namespace),
               (''labels'', JObj
                  [(''app.kubernetes.io/name'', JStr ''odoo''),
                   (''app.kubernetes.io/instance'', JStr name),
                   (''app.kubernetes.io/version'', version),
                   (''app.kubernetes.io/managed-by'', JStr ''odoo-operator'')]),
               (''ownerReferences'', owner_references name uid)]),
           (''spec'', JObj
              [(''replicas'', replicas),
               (''selector'', JObj [(''matchLabels'', JObj (selector_labels name))]),
               (''template'', JObj
                  [(''metadata'', JObj [(''labels'', JObj
                      (selector_labels name @ [(''app.kubernetes.io/version'', version)]))]),
                   (''spec'', JObj
                      ([(''containers'', JList
                          [JObj [(''name'', JStr ''odoo''),
                                 (''image'', image_ref),
                                 (''ports'', container_ports),
                                 (''env'', JList env_list),
                                 (''volumeMounts'', JList
                                    ([JObj [(''name'', JStr ''odoo-config''),
                                            (''mountPath'', JStr ''/etc/odoo''),
                                            (''readOnly'', JBool True)],
                                      JObj [(''name'', JStr ''odoo-filestore''),
                                            (''mountPath'', JStr ''/var/lib/odoo''),
                                            (''subPath'', JStr ''filestore'')]]
                                     @ (if with_addons
                                        then [JObj [(''name'', JStr ''odoo-addons''),
                                                    (''mountPath'', JStr ''/mnt/extra-addons'')]]
                                        else []))),
                                 (''resources'', resources),
                                 (''livenessProbe'', probe 60 [(''failureThreshold'', JInt 6)]),
                                 (''readinessProbe'',
                                    probe 30 [(''successThreshold'', JInt 1),
                                              (''failureThreshold'', JInt 6)])]]),
                        (''volumes'', JList
                           ([JObj [(''name'', JStr ''odoo-config''),
                                   (''configMap'', JObj
                                      [(''name'', JStr (''odoo-config-'' @ name))])],
                             JObj [(''name'', JStr ''odoo-filestore''),
                                   (''persistentVolumeClaim'', JObj
                                      [(''claimName'', JStr (''odoo-filestore-'' @ name))])]]
                            @ (if with_addons
                               then [JObj [(''name'', JStr ''odoo-addons''), (''emptyDir'', JObj [])]]
                               else [])))]
                       @ (case init_containers of
                            None \<Rightarrow> []
                          | Some cs \<Rightarrow> [(''initContainers'', JList cs)])))])])]"

definition create_deployment_shadowed :: "env \<Rightarrow> string \<Rightarrow> string \<Rightarrow> json \<Rightarrow> unit io" where
  "create_deployment_shadowed env name namespace spec =
     io_bind (io_lift (py_get spec ''version'' JNull)) (\<lambda>version.
     io_bind (io_lift (py_get spec ''image''
                (JStr (takeWhile (\<lambda>c. c \<noteq> CHR '':'') (DEFAULT_ODOO_IMAGE env) @ '':''
                       @ py_str env version)))) (\<lambda>image.
     io_bind (io_lift (py_get spec ''replicas'' (JInt 1))) (\<lambda>replicas.
     io_bind (io_lift (py_get spec ''resources'' (JObj []))) (\<lambda>resources.
     io_bind
       (io_try
          (io_bind (create_database_user env name namespace None) (\<lambda>_. io_return ()))
          (\<lambda>e.
             io_bind (logger WARNING (''Failed to create database user and database: ''
                                      @ str_exn e)) (\<lambda>_.
             io_bind (logger WARNING (''Continuing with deployment, but database access may ''
                                      @ ''not work correctly'')) (\<lambda>_.
             let db_name = generate_db_name name namespace;
                 db_user = generate_db_username name namespace
             in io_bind (generate_db_password env) (\<lambda>db_password.
                create_db_credentials_secret env name namespace db_user db_password
                  (Some db_name)))))) (\<lambda>_.
     io_bind (io_lift (deployment_env name spec)) (\<lambda>env_list.
     io_bind (io_lift (py_get spec ''addons'' JNull)) (\<lambda>addons.
     io_bind (owner_uid env name namespace) (\<lambda>uid.
     io_bind (io_lift (if truthy addons
                       then bind (py_iter addons) (\<lambda>items.
                            bind (map_exn (init_container_shadowed env) (enumerate 0 items))
                              (\<lambda>cs. Inr (Some cs)))
                       else Inr None)) (\<lambda>init_containers.
     create_skipping_conflict env Deployment namespace
       (deployment_manifest_shadowed name namespace uid version image replicas resources
          env_list (truthy addons) init_containers)
       None
       (''Deployment odoo-'' @ name @ '' already exists, skipping creation''))))))))))"

section \<open>Reconciliation handlers\<close>

text \<open>
  \<^verbatim>\<open>patch_status\<close>, lines 341 to 375: read the custom object, update its status
  dict with the given members, send the result as the body of a status patch. An
  \<open>ApiException\<close> from either call is logged and not raised.
\<close>

fun dict_update :: "json \<Rightarrow> (string \<times> json) list \<Rightarrow> exn + json" where
  "dict_update (JObj ps) status_patch =
     Inr (JObj (fold (\<lambda>kv acc. AList.update (fst kv) (snd kv) acc) status_patch ps))"
| "dict_update v status_patch =
     Inl (AttributeError ([CHR 0x27] @ type_name v @ [CHR 0x27]
            @ '' object has no attribute '' @ [CHR 0x27] @ ''update'' @ [CHR 0x27]))"

definition patch_status :: "env \<Rightarrow> string \<Rightarrow> string \<Rightarrow> (string \<times> json) list \<Rightarrow> unit io" where
  "patch_status env name namespace status_patch =
     io_try
       (io_bind (read_namespaced env OdooInstance name namespace) (\<lambda>current.
        io_bind (io_lift (bind (py_get current ''status'' (JObj [])) (\<lambda>current_status.
                          dict_update current_status status_patch))) (\<lambda>new_status.
        patch_namespaced_custom_object_status env namespace name
          (JObj [(''status'', new_status)]))))
       (\<lambda>e. case e of
              ApiException status reason \<Rightarrow> logger ERROR (''Error updating status: '' @ str_exn e)
            | _ \<Rightarrow> io_lift (Inl e))"

text \<open>
  The address under which the instance is reached (lines 113 to 116 and 195 to 198):
  \<open>None\<close> unless the ingress block has a host name.
\<close>

definition instance_url :: "env \<Rightarrow> json \<Rightarrow> exn + json" where
  "instance_url env spec =
     bind (py_get spec ''ingress'' (JObj [])) (\<lambda>ingress1.
     bind (py_get ingress1 ''hostname'' JNull) (\<lambda>hostname.
     if truthy hostname then
       bind (py_get spec ''ingress'' (JObj [])) (\<lambda>ingress2.
       bind (py_get ingress2 ''tls'' (JBool True)) (\<lambda>tls.
       bind (py_getitem spec ''ingress'') (\<lambda>ingress3.
       bind (py_getitem ingress3 ''hostname'') (\<lambda>h.
       Inr (JStr ((if truthy tls then ''https'' else ''http'') @ ''://'' @ py_str env h))))))
     else Inr JNull))"

definition ingress_enabled :: "json \<Rightarrow> exn + bool" where
  "ingress_enabled spec =
     bind (py_get spec ''ingress'' (JObj [])) (\<lambda>ingress.
     bind (py_get ingress ''enabled'' (JBool True)) (\<lambda>enabled.
     Inr (truthy enabled)))"

text \<open>\<^verbatim>\<open>create_odoo_instance\<close>, lines 61 to 141.\<close>

definition create_resources :: "env \<Rightarrow> string \<Rightarrow> string \<Rightarrow> json \<Rightarrow> json io" where
  "create_resources env name namespace spec =
     io_bind (create_filestore_pvc env name namespace spec) (\<lambda>_.
     io_bind (logger INFO (''Created filestore PVC for '' @ name)) (\<lambda>_.
     io_bind (create_config_map env name namespace spec) (\<lambda>_.
     io_bind (logger INFO (''Created ConfigMap for '' @ name)) (\<lambda>_.
     io_bind (create_deployment env name namespace spec) (\<lambda>_.
     io_bind (logger INFO (''Created deployment for '' @ name)) (\<lambda>_.
     io_bind (create_service env name namespace spec) (\<lambda>_.
     io_bind (logger INFO (''Created service for '' @ name)) (\<lambda>_.
     io_bind (io_lift (ingress_enabled spec)) (\<lambda>enabled.
     if enabled then
       io_bind (create_ingress env name namespace spec) (\<lambda>_.
       io_bind (logger INFO (''Created ingress for '' @ name)) (\<lambda>_.
       io_lift (instance_url env spec)))
     else io_return JNull)))))))))"

definition create_odoo_instance :: "env \<Rightarrow> string \<Rightarrow> string \<Rightarrow> json \<Rightarrow> json io" where
  "create_odoo_instance env name namespace spec =
     io_bind (logger INFO (''Creating OdooInstance: '' @ name @ '' in namespace: '' @ namespace))
       (\<lambda>_.
     io_bind (patch_status env name namespace
                [(''phase'', JStr ''Pending''),
                 (''message'', JStr ''Creating resources''),
                 (''ready'', JBool False)]) (\<lambda>_.
     io_try
       (io_bind (create_resources env name namespace spec) (\<lambda>url.
        io_bind (patch_status env name namespace
                   [(''phase'', JStr ''Running''),
                    (''ready'', JBool True),
                    (''url'', url),
                    (''message'', JStr ''Odoo instance created successfully'')]) (\<lambda>_.
        io_bind (logger INFO (''Successfully created OdooInstance: '' @ name
                              @ '' in namespace: '' @ namespace)) (\<lambda>_.
        io_return (JObj [(''status'', JStr ''success''),
                         (''message'', JStr ''Odoo instance created successfully''),
                         (''url'', url)])))))
       (\<lambda>e. case e of
              ApiException status reason \<Rightarrow>
                (let error_msg = ''Error creating resources: '' @ str_exn e in
                 io_bind (logger ERROR error_msg) (\<lambda>_.
                 io_bind (patch_status env name namespace
                            [(''phase'', JStr ''Failed''),
                             (''ready'', JBool False),
                             (''message'', JStr error_msg)]) (\<lambda>_.
                 io_lift (Inl (PermanentError error_msg)))))
            | _ \<Rightarrow> io_lift (Inl e))))"

text \<open>
  \<^verbatim>\<open>update_odoo_instance\<close>, lines 143 to 232. \<open>update_prepare\<close> is what runs
  before the \<^verbatim>\<open>try\<close> (lines 162 to 175), with \<open>log_changes\<close> the loop over the
  dispatcher's diff; \<open>update_resources\<close> is the body of the \<^verbatim>\<open>try\<close> up to the
  computation of the address (lines 178 to 209).
\<close>

fun log_changes :: "env \<Rightarrow> (string \<times> string list \<times> json \<times> json) list \<Rightarrow> unit io" where
  "log_changes env [] = io_return ()"
| "log_changes env ((op, path, old_val, new_val) # rest) =
     io_bind (logger INFO (''Change detected: '' @ op @ '' '' @ join ''.'' path @ '' from ''
                           @ py_str env old_val @ '' to '' @ py_str env new_val)) (\<lambda>_.
     log_changes env rest)"

definition update_resources :: "env \<Rightarrow> string \<Rightarrow> string \<Rightarrow> json \<Rightarrow> json \<Rightarrow> json io" where
  "update_resources env name namespace spec old =
     io_bind (update_config_map env name namespace spec) (\<lambda>_.
     io_bind (update_deployment env name namespace spec) (\<lambda>_.
     io_bind (update_service env name namespace spec) (\<lambda>_.
     io_bind (io_lift (ingress_enabled spec)) (\<lambda>enabled.
     if enabled then
       io_bind (io_lift (ingress_enabled old)) (\<lambda>was_enabled.
       io_bind (if was_enabled then update_ingress env name namespace spec
                else create_ingress env name namespace spec) (\<lambda>_.
       io_lift (instance_url env spec)))
     else
       io_bind (io_lift (ingress_enabled old)) (\<lambda>was_enabled.
       if was_enabled then
         io_bind
           (io_try
              (io_bind (delete_namespaced env Ingress (''odoo-'' @ name) namespace) (\<lambda>_.
               logger INFO (''Deleted ingress for '' @ name)))
              (\<lambda>e. case e of
                     ApiException status reason \<Rightarrow>
                       if status \<noteq> 404 then io_lift (Inl e) else io_return ()
                   | _ \<Rightarrow> io_lift (Inl e))) (\<lambda>_.
         io_return JNull)
       else io_return JNull)))))"

definition update_result :: json where
  "update_result =
     JObj [(''status'', JStr ''success''),
           (''message'', JStr ''Odoo instance updated successfully'')]"

definition update_prepare ::
  "env \<Rightarrow> string \<Rightarrow> string \<Rightarrow> (string \<times> string list \<times> json \<times> json) list \<Rightarrow> unit io" where
  "update_prepare env name namespace diff =
     io_bind (logger INFO (''Updating OdooInstance: '' @ name @ '' in namespace: '' @ namespace))
       (\<lambda>_.
     io_bind (patch_status env name namespace
                [(''phase'', JStr ''Updating''),
                 (''message'', JStr ''Updating resources'')]) (\<lambda>_.
     log_changes env diff))"

definition update_odoo_instance ::
  "env \<Rightarrow> string \<Rightarrow> string \<Rightarrow> json \<Rightarrow> json \<Rightarrow> (string \<times> string list \<times> json \<times> json) list
     \<Rightarrow> json io" where
  "update_odoo_instance env name namespace spec old diff =
     io_bind (update_prepare env name namespace diff) (\<lambda>_.
     io_try
       (io_bind (update_resources env name namespace spec old) (\<lambda>url.
        io_bind (patch_status env name namespace
                   [(''phase'', JStr ''Running''),
                    (''ready'', JBool True),
                    (''url'', url),
                    (''message'', JStr ''Odoo instance updated successfully'')]) (\<lambda>_.
        io_bind (logger INFO (''Successfully updated OdooInstance: '' @ name
                              @ '' in namespace: '' @ namespace)) (\<lambda>_.
        io_return update_result))))
       (\<lambda>e. case e of
              ApiException status reason \<Rightarrow>
                (let error_msg = ''Error updating resources: '' @ str_exn e in
                 io_bind (logger ERROR error_msg) (\<lambda>_.
                 io_bind (patch_status env name namespace
                            [(''phase'', JStr ''Failed''),
                             (''message'', JStr error_msg)]) (\<lambda>_.
                 io_lift (Inl (PermanentError error_msg)))))
            | _ \<Rightarrow> io_lift (Inl e)))"

section \<open>Notions used to state the properties\<close>

text \<open>
  The calls to the store made between two states, the member \<open>k\<close> of the status of an
  instance as \<^verbatim>\<open>status.get(k)\<close> reads it, and the record of a status patch that the
  store has accepted.
\<close>

definition new_calls :: "world \<Rightarrow> world \<Rightarrow> api_event list" where
  "new_calls w w' = drop (length (calls w)) (calls w')"

definition instance_status :: "world \<Rightarrow> string \<Rightarrow> string \<Rightarrow> string \<Rightarrow> json" where
  "instance_status w namespace name k =
     (case objects w (OdooInstance, namespace, name) of
        None \<Rightarrow> JNull
      | Some obj \<Rightarrow>
          (case bind (py_get obj ''status'' (JObj [])) (\<lambda>s. py_get s k JNull) of
             Inr v \<Rightarrow> v
           | Inl e \<Rightarrow> JNull))"

definition status_patched :: "string \<Rightarrow> string \<Rightarrow> api_event" where
  "status_patched namespace name =
     \<lparr>verb_of = PatchStatus, kind_of = OdooInstance, namespace_of = namespace,
      name_of = name, failed = None\<rparr>"

definition is_object :: "json \<Rightarrow> bool" where
  "is_object v = (case v of JObj ps \<Rightarrow> True | _ \<Rightarrow> False)"

text \<open>A computation that leaves every custom object of the store as it is.\<close>

definition keeps_instances :: "'a io \<Rightarrow> bool" where
  "keeps_instances m \<longleftrightarrow>
     (\<forall>w r w' namespace name. m w = (r, w') \<longrightarrow>
        objects w' (OdooInstance, namespace, name) = objects w (OdooInstance, namespace, name))"

text \<open>
  The idempotent-apply policy. A \<open>conflict\<close> is a create that the store refused with
  409; \<open>missing k\<close> is a read or patch of an object of kind \<open>k\<close> that the store
  refused with 404. A computation absorbs conflicts when a conflict among its calls
  means that it returns normally and leaves the objects of the store as they were. It
  propagates every failure unless recoverable when any other refused call makes it raise
  the \<open>ApiException\<close> of that status. It applies idempotently when, the store failing
  only for what it holds, a run that has succeeded can be repeated: the second run
  succeeds and changes no object.
\<close>

definition conflict :: "api_event \<Rightarrow> bool" where
  "conflict ev \<longleftrightarrow> verb_of ev = Create \<and> failed ev = Some 409"

definition missing :: "kind \<Rightarrow> api_event \<Rightarrow> bool" where
  "missing k ev \<longleftrightarrow>
     kind_of ev = k \<and> (verb_of ev = Read \<or> verb_of ev = Patch) \<and> failed ev = Some 404"

definition absorbs_conflict :: "unit io \<Rightarrow> bool" where
  "absorbs_conflict f \<longleftrightarrow>
     (\<forall>w r w'. f w = (r, w') \<and> (\<exists>ev \<in> set (new_calls w w'). conflict ev)
        \<longrightarrow> r = Inr () \<and> objects w' = objects w)"

definition propagates_unless :: "(api_event \<Rightarrow> bool) \<Rightarrow> unit io \<Rightarrow> bool" where
  "propagates_unless recoverable f \<longleftrightarrow>
     (\<forall>w r w' ev status.
        f w = (r, w') \<and> ev \<in> set (new_calls w w') \<and> failed ev = Some status \<and> \<not> recoverable ev
        \<longrightarrow> (\<exists>reason. r = Inl (ApiException status reason)))"

definition no_faults :: "env \<Rightarrow> bool" where
  "no_faults env \<longleftrightarrow> (\<forall>n v k. api_fault env n v k = None)"

definition applies_idempotently :: "env \<Rightarrow> unit io \<Rightarrow> bool" where
  "applies_idempotently env f \<longleftrightarrow>
     (no_faults env \<longrightarrow>
        (\<forall>w w1. f w = (Inr (), w1) \<longrightarrow> (\<exists>w2. f w1 = (Inr (), w2) \<and> objects w2 = objects w1)))"

text \<open>
  The shape that the \<^verbatim>\<open>create_*\<close> functions share: values computed from the
  specification, the read of the owner's uid, and, last, the create that skips an
  object that exists. The body of the \<^verbatim>\<open>try\<close> of an \<^verbatim>\<open>update_*\<close> function is
  made of such values and of reads and patches of objects of one kind.
\<close>

inductive create_shaped :: "env \<Rightarrow> unit io \<Rightarrow> bool" for env where
  skipping: "k \<noteq> OdooInstance \<Longrightarrow>
     create_shaped env (create_skipping_conflict env k namespace body created_msg exists_msg)"
| computed: "(\<And>x. create_shaped env (f x)) \<Longrightarrow> create_shaped env (io_bind (io_lift p) f)"
| owned: "(\<And>uid. create_shaped env (f uid)) \<Longrightarrow>
     create_shaped env (io_bind (owner_uid env name namespace) f)"

inductive update_shaped :: "env \<Rightarrow> kind \<Rightarrow> unit io \<Rightarrow> bool" for env k where
  returned: "update_shaped env k (io_return x)"
| logged: "update_shaped env k (logger lvl msg)"
| computed: "(\<And>x. update_shaped env k (f x)) \<Longrightarrow> update_shaped env k (io_bind (io_lift p) f)"
| reading: "(\<And>obj. update_shaped env k (f obj)) \<Longrightarrow>
     update_shaped env k (io_bind (read_namespaced env k name namespace) f)"
| patching: "(\<And>u. update_shaped env k (f u)) \<Longrightarrow>
     update_shaped env k (io_bind (patch_namespaced env k name namespace body) f)"

section \<open>A concrete environment\<close>

text \<open>
  The defaults of lines 31 to 41, a store and a database server that never fail on their
  own, and a cluster that holds nothing but the custom object of the instance \<open>test\<close>
  in the namespace \<open>default\<close>.
\<close>

fun repr_scalar :: "json \<Rightarrow> string" where
  "repr_scalar JNull = ''None''"
| "repr_scalar (JBool b) = (if b then ''True'' else ''False'')"
| "repr_scalar (JInt i) = str_int i"
| "repr_scalar v = json_dumps v"

definition default_env :: env where
  "default_env =
     \<lparr>DEFAULT_ODOO_IMAGE = ''odoo:17.0'',
      DEFAULT_STORAGE_CLASS = ''standard'',
      DEFAULT_INGRESS_CLASS = ''nginx'',
      DB_HOST = ''postgres'',
      DB_PORT = ''5432'',
      DB_ADMIN_USER = ''postgres'',
      DB_ADMIN_PASSWORD_SECRET = ''postgres-admin'',
      DB_ADMIN_PASSWORD_SECRET_KEY = ''password'',
      DB_ADMIN_PASSWORD_SECRET_NAMESPACE = [],
      psycopg2_installed = True,
      api_fault = (\<lambda>n v k. None),
      db_fault = (\<lambda>n op. None),
      random_choice = (\<lambda>n. n),
      py_repr = repr_scalar\<rparr>"

definition instance_object :: "string \<Rightarrow> string \<Rightarrow> json \<Rightarrow> (string \<times> json) list \<Rightarrow> json" where
  "instance_object name namespace spec status =
     JObj [(''apiVersion'', JStr ''odoo.bemade.org/v1''),
           (''kind'', JStr ''OdooInstance''),
           (''metadata'', JObj [(''name'', JStr name), (''namespace'', JStr namespace),
                                (''uid'', JStr ''uid-1'')]),
           (''spec'', spec),
           (''status'', JObj status)]"

definition cluster_of :: "json \<Rightarrow> (string \<times> json) list \<Rightarrow> world" where
  "cluster_of spec status =
     \<lparr>objects = (\<lambda>key. None)((OdooInstance, ''default'', ''test'') \<mapsto>
                   instance_object ''test'' ''default'' spec status),
      calls = [],
      roles = [],
      databases = [],
      db_calls = 0,
      draws = 0,
      log = []\<rparr>"

definition spec_no_host :: json where
  "spec_no_host =
     JObj [(''version'', JStr ''17.0''), (''ingress'', JObj [(''enabled'', JBool True)])]"

definition spec_with_host :: json where
  "spec_with_host =
     JObj [(''version'', JStr ''17.0''),
           (''ingress'', JObj [(''enabled'', JBool True),
                               (''hostname'', JStr ''app.example.com''),
                               (''tls'', JBool True)])]"

text \<open>
  The same cluster with the administrator's secret in place; its password is the
  encoding of \<open>secret\<close>.
\<close>

definition admin_secret :: json where
  "admin_secret = JObj [(''data'', JObj [(''password'', JStr ''c2VjcmV0'')])]"

definition provisioned :: "json \<Rightarrow> world" where
  "provisioned spec =
     (cluster_of spec [])\<lparr>objects := (objects (cluster_of spec []))
        ((Secret, ''default'', ''postgres-admin'') \<mapsto> admin_secret)\<rparr>"

definition secret_password :: "world \<Rightarrow> exn + json" where
  "secret_password w =
     (case objects w (Secret, ''default'', ''odoo-db-credentials-test'') of
        None \<Rightarrow> Inl (KeyError ''odoo-db-credentials-test'')
      | Some secret \<Rightarrow> bind (py_getitem secret ''data'') (\<lambda>d. py_getitem d ''password''))"

text \<open>An environment whose database server cannot be reached.\<close>

definition unreachable_env :: env where
  "unreachable_env =
     default_env\<lparr>db_fault :=
       (\<lambda>n op. if op = Connect then Some ''could not connect to server'' else None)\<rparr>"


definition var_name :: "json \<Rightarrow> json" where
  "var_name e = (case py_getitem e ''name'' of Inr n \<Rightarrow> n | Inl _ \<Rightarrow> JNull)"


definition custom_host :: json where
  "custom_host = JObj [(''name'', JStr ''ODOO_DB_HOST''), (''value'', JStr ''db.internal'')]"

definition spec_override :: json where
  "spec_override = JObj [(''version'', JStr ''17.0''), (''env'', JList [custom_host])]"

text \<open>
  A specification with the ingress switched off, and an environment whose store refuses
  every read of a ConfigMap with status 500.
\<close>

definition spec_plain :: json where
  "spec_plain = JObj [(''version'', JStr ''17.0''), (''ingress'', JObj [(''enabled'', JBool False)])]"

definition failing_env :: env where
  "failing_env =
     default_env\<lparr>api_fault :=
       (\<lambda>n v k. if v = Read \<and> k = ConfigMap then Some (500, ''Internal Server Error'')
                  else None)\<rparr>"

section \<open>Properties of the database identity\<close>

text \<open>
  C7. For every instance name and namespace the derived database name is the first 63
  characters of \<open>odoo_<namespace>_<instance-name>\<close> and the derived user name the first
  63 characters of \<open>odoo_user_<namespace>_<instance-name>\<close>: each is a function of its
  two inputs only, is never longer than 63 characters, is a prefix of the naive
  concatenation, equals it when it fits, and has exactly 63 characters (the tail cut
  off) when it does not.
\<close>

theorem db_identity_bounded:
  fixes instance_name namespace :: string
  defines "naive_db \<equiv> ''odoo_'' @ namespace @ ''_'' @ instance_name"
    and "naive_user \<equiv> ''odoo_user_'' @ namespace @ ''_'' @ instance_name"
  shows "generate_db_name instance_name namespace = take 63 naive_db
       \<and> generate_db_username instance_name namespace = take 63 naive_user
       \<and> length (generate_db_name instance_name namespace) \<le> 63
       \<and> length (generate_db_username instance_name namespace) \<le> 63
       \<and> prefix (generate_db_name instance_name namespace) naive_db
       \<and> prefix (generate_db_username instance_name namespace) naive_user
       \<and> (length naive_db \<le> 63 \<longrightarrow> generate_db_name instance_name namespace = naive_db)
       \<and> (length naive_user \<le> 63 \<longrightarrow>
            generate_db_username instance_name namespace = naive_user)
       \<and> (63 < length naive_db \<longrightarrow>
            length (generate_db_name instance_name namespace) = 63
          \<and> naive_db = generate_db_name instance_name namespace @ drop 63 naive_db)
       \<and> (63 < length naive_user \<longrightarrow>
            length (generate_db_username instance_name namespace) = 63
          \<and> naive_user = generate_db_username instance_name namespace @ drop 63 naive_user)"
proof -
  have slice: "length (take 63 xs) \<le> 63 \<and> prefix (take 63 xs) xs
      \<and> (length xs \<le> 63 \<longrightarrow> take 63 xs = xs)
      \<and> (63 < length xs \<longrightarrow> length (take 63 xs) = 63 \<and> xs = take 63 xs @ drop 63 xs)"
    for xs :: string
    by (simp add: take_is_prefix)
  have d: "generate_db_name instance_name namespace = take 63 naive_db"
    by (simp only: generate_db_name_def naive_db_def)
  have u: "generate_db_username instance_name namespace = take 63 naive_user"
    by (simp only: generate_db_username_def naive_user_def)
  from slice [of naive_db] slice [of naive_user] show ?thesis
    unfolding d u by blast
qed

theorem db_identity_bounded_witness:
  "generate_db_name ''myinst'' ''ns'' = ''odoo_ns_myinst''
 \<and> generate_db_username ''myinst'' ''ns'' = ''odoo_user_ns_myinst''
 \<and> length (generate_db_name (replicate 70 CHR ''x'') ''ns'') = 63
 \<and> generate_db_name (replicate 70 CHR ''x'') ''ns'' = ''odoo_ns_'' @ replicate 55 CHR ''x''
 \<and> length (generate_db_username (replicate 70 CHR ''x'') ''ns'') = 63"
  using db_identity_bounded [of "''ns''" "''myinst''"]
    db_identity_bounded [of "''ns''" "replicate 70 CHR ''x''"]
  by (simp add: generate_db_name_def generate_db_username_def)

text \<open>
  C10. Neither derivation is injective, even when nothing is truncated: namespace
  \<open>a_b\<close> with instance \<open>c\<close> and namespace \<open>a\<close> with instance \<open>b_c\<close> are distinct
  pairs, both concatenations are shorter than 63 characters, and both give the database
  name \<open>odoo_a_b_c\<close> and the user name \<open>odoo_user_a_b_c\<close>.
\<close>

theorem db_identity_not_injective:
  "(''c'', ''a_b'') \<noteq> (''b_c'', ''a'')
 \<and> length (''odoo_'' @ ''a_b'' @ ''_'' @ ''c'') \<le> 63
 \<and> length (''odoo_'' @ ''a'' @ ''_'' @ ''b_c'') \<le> 63
 \<and> length (''odoo_user_'' @ ''a_b'' @ ''_'' @ ''c'') \<le> 63
 \<and> length (''odoo_user_'' @ ''a'' @ ''_'' @ ''b_c'') \<le> 63
 \<and> generate_db_name ''c'' ''a_b'' = ''odoo_a_b_c''
 \<and> generate_db_name ''b_c'' ''a'' = ''odoo_a_b_c''
 \<and> generate_db_username ''c'' ''a_b'' = ''odoo_user_a_b_c''
 \<and> generate_db_username ''b_c'' ''a'' = ''odoo_user_a_b_c''
 \<and> \<not> inj (\<lambda>(instance_name, namespace). generate_db_name instance_name namespace)
 \<and> \<not> inj (\<lambda>(instance_name, namespace). generate_db_username instance_name namespace)"
proof -
  have neq: "(''c'', ''a_b'') \<noteq> (''b_c'', ''a'')" by simp
  have n: "generate_db_name ''c'' ''a_b'' = generate_db_name ''b_c'' ''a''"
    by (simp add: generate_db_name_def)
  have u: "generate_db_username ''c'' ''a_b'' = generate_db_username ''b_c'' ''a''"
    by (simp add: generate_db_username_def)
  have "\<not> inj (\<lambda>(instance_name, namespace). generate_db_name instance_name namespace)"
  proof
    assume "inj (\<lambda>(instance_name, namespace). generate_db_name instance_name namespace)"
    from injD [OF this, of "(''c'', ''a_b'')" "(''b_c'', ''a'')"] n neq
    show False by simp
  qed
  moreover have
    "\<not> inj (\<lambda>(instance_name, namespace). generate_db_username instance_name namespace)"
  proof
    assume "inj (\<lambda>(instance_name, namespace). generate_db_username instance_name namespace)"
    from injD [OF this, of "(''c'', ''a_b'')" "(''b_c'', ''a'')"] u neq
    show False by simp
  qed
  ultimately show ?thesis
    by (simp add: generate_db_name_def generate_db_username_def)
qed

section \<open>Properties of the admission gate\<close>

lemmas validate_defs = validate_odoo_instance_def validate_resources_def validate_replicas_def
  bind_def re_module_def

text \<open>
  C8. The claim says that validation rejects exactly in four cases and accepts
  otherwise. The three scenarios of the claim hold: the empty instance is rejected with a
  reason that names \<open>version\<close>, replicas 0 is rejected with a reason that names
  \<open>replicas\<close>, a specification with only a version is accepted. But a memory limit
  \<open>512Mi\<close>, which the pattern of line 1760 matches, is not accepted:
  \<^verbatim>\<open>validate_odoo_instance\<close> raises \<open>NameError\<close> for the unbound name \<^verbatim>\<open>re\<close>, and
  the validating route turns the exception into a denial.
\<close>

theorem validate_limits_name_error:
  "validate_odoo_instance
     (JObj [(''spec'', JObj
        [(''version'', JStr ''17.0''),
         (''resources'', JObj [(''limits'', JObj [(''memory'', JStr ''512Mi'')])])])])
     = Inl (NameError ''re'')
 \<and> match_memory ''512Mi''
 \<and> validate_odoo_instance_webhook
       (JObj [(''request'', JObj
          [(''uid'', JStr ''u1''),
           (''object'', JObj [(''spec'', JObj
              [(''version'', JStr ''17.0''),
               (''resources'', JObj [(''limits'', JObj [(''memory'', JStr ''512Mi'')])])])])])])
     = Inr (admission_review
              [(''uid'', JStr ''u1''),
               (''allowed'', JBool False),
               (''status'', JObj [(''message'',
                  JStr (''Error validating OdooInstance: name '' @ [CHR 0x27] @ ''re''
                        @ [CHR 0x27] @ '' is not defined''))])],
            200)
 \<and> validate_odoo_instance (JObj [])
     = Inr (False, Some ([CHR 0x27] @ ''version'' @ [CHR 0x27]
                         @ '' is required in the OdooInstance spec''))
 \<and> validate_odoo_instance
       (JObj [(''spec'', JObj [(''version'', JStr ''17.0''), (''replicas'', JInt 0)])])
     = Inr (False, Some ([CHR 0x27] @ ''replicas'' @ [CHR 0x27] @ '' must be at least 1''))
 \<and> validate_odoo_instance (JObj [(''spec'', JObj [(''version'', JStr ''17.0'')])])
     = Inr (True, None)"
  by (simp add: validate_defs validate_odoo_instance_webhook_def match_memory_def is_digit_def
      at_end_def)

text \<open>
  The defaulting pass keeps keys distinct, and the difference of a document with itself
  is empty.
\<close>

lemma diff_json_same: "distinct_keys x \<Longrightarrow> diff_json path x x = []"
proof (induction x arbitrary: path)
  case (JObj ps)
  have d: "distinct (map fst ps)" and w: "\<And>kv. kv \<in> set ps \<Longrightarrow> distinct_keys (snd kv)"
    using JObj.prems by auto
  have look: "map_of ps (fst kv) = Some (snd kv)" if "kv \<in> set ps" for kv
    using d map_of_is_SomeI [of ps "fst kv" "snd kv"] that by simp
  have a: "filter (\<lambda>kv. map_of ps (fst kv) = None) ps = []"
    using look by (auto simp: filter_empty_conv)
  have b: "(case map_of ps (fst kv) of
              None \<Rightarrow> []
            | Some d \<Rightarrow> diff_json (path @ [fst kv]) (snd kv) d) = []"
    if "kv \<in> set ps" for kv
  proof -
    have "diff_json (path @ [fst kv]) (snd kv) (snd kv) = []"
      using JObj.IH [of kv "snd kv"] that w [OF that] by (cases kv) auto
    then show ?thesis by (simp add: look [OF that])
  qed
  show ?case using a b by simp
qed simp_all

lemma set_update_cases: "kv \<in> set (AList.update k v ps) \<Longrightarrow> kv = (k, v) \<or> kv \<in> set ps"
  by (induction ps) (auto split: if_splits)

lemma distinct_keys_update:
  assumes "distinct_keys (JObj ps)" and "distinct_keys v"
  shows "distinct_keys (JObj (AList.update k v ps))"
proof -
  have "distinct_keys (snd kv)" if "kv \<in> set (AList.update k v ps)" for kv
    using set_update_cases [OF that] assms by auto
  then show ?thesis using assms by (simp add: AList.distinct_update)
qed

lemma distinct_keys_setitem:
  "py_setitem x k v = Inr y \<Longrightarrow> distinct_keys x \<Longrightarrow> distinct_keys v \<Longrightarrow> distinct_keys y"
  by (cases x) (auto simp del: distinct_keys.simps simp: distinct_keys_update)

lemma distinct_keys_getitem:
  "py_getitem x k = Inr y \<Longrightarrow> distinct_keys x \<Longrightarrow> distinct_keys y"
  by (cases x) (auto split: option.splits dest!: map_of_SomeD)

lemma distinct_keys_write_back:
  "distinct_keys x \<Longrightarrow> distinct_keys v \<Longrightarrow> distinct_keys (write_back x k v)"
  unfolding write_back_def
  by (cases x) (simp_all del: distinct_keys.simps add: distinct_keys_update)

lemma distinct_keys_mutate_ingress:
  "mutate_ingress x = (r, y) \<Longrightarrow> distinct_keys x \<Longrightarrow> distinct_keys y"
  unfolding mutate_ingress_def
  by (auto split: sum.splits if_splits dest: distinct_keys_setitem)

lemma distinct_keys_mutate_spec:
  assumes "mutate_spec x = (r, y)" and "distinct_keys x"
  shows "distinct_keys y"
proof -
  have dr: "distinct_keys default_resources" by (simp add: default_resources_def)
  have s1: "distinct_keys s1"
    if "(if b then Inr x else py_setitem x ''replicas'' (JInt 1)) = Inr s1" for b s1
    using that assms(2) by (auto split: if_splits dest: distinct_keys_setitem)
  have s2: "distinct_keys s2"
    if "(if b then Inr s1 else py_setitem s1 ''ingress'' (JObj [])) = Inr s2" "distinct_keys s1"
    for b s1 s2
    using that by (auto split: if_splits dest: distinct_keys_setitem)
  have s3: "distinct_keys (write_back s2 ''ingress'' i')"
    if "py_getitem s2 ''ingress'' = Inr i" "mutate_ingress i = (q, i')" "distinct_keys s2"
    for s2 i i' q
    using that by (auto intro!: distinct_keys_write_back
        dest: distinct_keys_getitem distinct_keys_mutate_ingress)
  have s4: "distinct_keys s4"
    if "py_setitem s3 ''resources'' default_resources = Inr s4" "distinct_keys s3" for s3 s4
    using that dr by (auto dest: distinct_keys_setitem)
  show ?thesis
    using assms(1) assms(2) unfolding mutate_spec_def Let_def
    by (auto split: sum.splits prod.splits if_splits simp del: distinct_keys.simps
        dest: s1 s2 s3 s4) (metis s1 s2 s3 s4)+
qed

lemma distinct_keys_mutate_in_place:
  assumes "mutate_in_place x = (r, y)" and "distinct_keys x"
  shows "distinct_keys y"
proof -
  have i1: "distinct_keys i1"
    if "(if b then Inr x else py_setitem x ''spec'' (JObj [])) = Inr i1" for b i1
    using that assms(2) by (auto split: if_splits dest: distinct_keys_setitem)
  have i2: "distinct_keys (write_back i1 ''spec'' s')"
    if "py_getitem i1 ''spec'' = Inr s" "mutate_spec s = (q, s')" "distinct_keys i1"
    for i1 s s' q
    using that by (auto intro!: distinct_keys_write_back
        dest: distinct_keys_getitem distinct_keys_mutate_spec)
  show ?thesis
    using assms unfolding mutate_in_place_def
    by (auto split: sum.splits prod.splits if_splits simp del: distinct_keys.simps
        dest: i1 i2) (metis i1 i2)+
qed

text \<open>
  Whatever the object, the operations that the mutating route computes are none: it
  compares the object at one address with the object at the same address.
\<close>

lemma mutate_patch_always_empty:
  assumes "distinct_keys object" and "mutate_patch_ops jsonpatch_installed object = Inr ops"
  shows "ops = []"
proof -
  obtain r v where m: "mutate_in_place object = (r, v)" by (cases "mutate_in_place object")
  have "distinct_keys v" using distinct_keys_mutate_in_place [OF m assms(1)] .
  then have "make_patch v v = []" by (simp add: make_patch_def diff_json_same)
  then show ?thesis
    using assms(2) m
    by (auto simp: mutate_patch_ops_def mutate_odoo_instance_def Let_def
        split: sum.splits if_splits)
qed

text \<open>
  C4. The claim says that applying the returned patch to the original object yields
  the defaulted form. For the object \<open>{spec: {version: "17.0"}}\<close> the defaulting
  function does fill the object in place (replicas 1, ingress.tls true, a resources
  block), but the route answers with the patch \<open>W10=\<close>, the encoding of \<open>[]\<close>:
  applying it leaves the original as it was, with no \<open>replicas\<close> member, while the
  difference between the original and the defaulted form has three operations.
\<close>

theorem mutate_patch_is_empty:
  "mutate_patch_ops True (JObj [(''spec'', JObj [(''version'', JStr ''17.0'')])]) = Inr []
 \<and> apply_patch [] (JObj [(''spec'', JObj [(''version'', JStr ''17.0'')])])
     = Some (JObj [(''spec'', JObj [(''version'', JStr ''17.0'')])])
 \<and> bind (py_getitem (JObj [(''spec'', JObj [(''version'', JStr ''17.0'')])]) ''spec'')
      (\<lambda>spec. py_getitem spec ''replicas'') = Inl (KeyError ''replicas'')
 \<and> mutate_in_place (JObj [(''spec'', JObj [(''version'', JStr ''17.0'')])])
     = (Inr (), JObj [(''spec'', JObj [(''version'', JStr ''17.0''),
                                      (''replicas'', JInt 1),
                                      (''ingress'', JObj [(''tls'', JBool True)]),
                                      (''resources'', default_resources)])])
 \<and> make_patch (JObj [(''spec'', JObj [(''version'', JStr ''17.0'')])])
       (snd (mutate_in_place (JObj [(''spec'', JObj [(''version'', JStr ''17.0'')])])))
     = [Add [''spec'', ''replicas''] (JInt 1),
        Add [''spec'', ''ingress''] (JObj [(''tls'', JBool True)]),
        Add [''spec'', ''resources''] default_resources]
 \<and> mutate_odoo_instance_webhook True
       (JObj [(''request'', JObj
          [(''uid'', JStr ''u1''),
           (''object'', JObj [(''spec'', JObj [(''version'', JStr ''17.0'')])])])])
     = Inr (admission_review
              [(''uid'', JStr ''u1''),
               (''allowed'', JBool True),
               (''patchType'', JStr ''JSONPatch''),
               (''patch'', JStr ''W10='')],
            200)"
proof -
  have m: "mutate_in_place (JObj [(''spec'', JObj [(''version'', JStr ''17.0'')])])
     = (Inr (), JObj [(''spec'', JObj [(''version'', JStr ''17.0''),
                                      (''replicas'', JInt 1),
                                      (''ingress'', JObj [(''tls'', JBool True)]),
                                      (''resources'', default_resources)])])"
    by (simp add: mutate_in_place_def mutate_spec_def mutate_ingress_def write_back_def)
  have d: "diff_json p default_resources default_resources = []" for p
    by (rule diff_json_same) (simp add: default_resources_def)
  have ops: "mutate_patch_ops True (JObj [(''spec'', JObj [(''version'', JStr ''17.0'')])])
     = Inr []"
    by (simp add: mutate_patch_ops_def mutate_odoo_instance_def m make_patch_def d)
  have w: "mutate_odoo_instance_webhook True
       (JObj [(''request'', JObj
          [(''uid'', JStr ''u1''),
           (''object'', JObj [(''spec'', JObj [(''version'', JStr ''17.0'')])])])])
     = Inr (admission_review
              [(''uid'', JStr ''u1''),
               (''allowed'', JBool True),
               (''patchType'', JStr ''JSONPatch''),
               (''patch'', JStr ''W10='')],
            200)"
    by (simp add: mutate_odoo_instance_webhook_def bind_def ops utf8_encode_def
        b64_char_def b64_alphabet_def)
  show ?thesis
    by (simp add: m ops w make_patch_def bind_def)
qed

section \<open>Properties of resource synthesis\<close>

lemmas io_defs = io_bind_def io_lift_def io_return_def io_try_def logger_def bind_def Let_def

lemmas api_defs = create_namespaced_def read_namespaced_def patch_namespaced_def
  delete_namespaced_def patch_namespaced_custom_object_status_def api_ok_def api_fail_def
  record_call_def owner_uid_def body_name_def

lemmas example_defs = cluster_of_def default_env_def instance_object_def spec_no_host_def
  spec_with_host_def

text \<open>
  C2. The claim says that with ingress enabled and no host name the create path
  synthesizes no Ingress and logs a warning. The \<^verbatim>\<open>create_ingress\<close> that the create
  handler reaches sends an Ingress whose rule has the host \<open>None\<close> and whose TLS entry
  lists the host \<open>None\<close>, and logs no warning. The earlier definition of the same name, which no call reaches, does
  what the claim says. The second half of the claim holds: with the host name
  \<open>app.example.com\<close> and TLS on, one Ingress is created with one TLS entry whose hosts
  are that name.
\<close>

theorem create_ingress_without_hostname:
  "fst (create_ingress default_env ''test'' ''default'' spec_no_host (cluster_of spec_no_host []))
     = Inr ()
 \<and> objects (snd (create_ingress default_env ''test'' ''default'' spec_no_host
                   (cluster_of spec_no_host []))) (Ingress, ''default'', ''test'')
     = Some (ingress_manifest ''test'' ''test'' ''default'' JNull (JStr ''nginx'') (JObj [])
               (Some [JObj [(''hosts'', JList [JNull]), (''secretName'', JStr ''test-tls'')]])
               (JStr ''uid-1''))
 \<and> log (snd (create_ingress default_env ''test'' ''default'' spec_no_host
               (cluster_of spec_no_host [])))
     = [(INFO, ''Created Ingress: test in namespace: default'')]
 \<and> create_ingress_shadowed default_env ''test'' ''default'' spec_no_host
       (cluster_of spec_no_host [])
     = (Inr (), (cluster_of spec_no_host [])
                  \<lparr>log := [(WARNING, ''Ingress hostname not specified for test, ''
                                     @ ''skipping ingress creation'')]\<rparr>)
 \<and> objects (snd (create_ingress default_env ''test'' ''default'' spec_with_host
                   (cluster_of spec_with_host []))) (Ingress, ''default'', ''test'')
     = Some (ingress_manifest ''test'' ''test'' ''default'' (JStr ''app.example.com'')
               (JStr ''nginx'') (JObj [])
               (Some [JObj [(''hosts'', JList [JStr ''app.example.com'']),
                            (''secretName'', JStr ''test-tls'')]])
               (JStr ''uid-1''))"
proof -
  have direct:
    "fst (create_ingress default_env ''test'' ''default'' spec_no_host
            (cluster_of spec_no_host [])) = Inr ()
   \<and> objects (snd (create_ingress default_env ''test'' ''default'' spec_no_host
                     (cluster_of spec_no_host []))) (Ingress, ''default'', ''test'')
       = Some (ingress_manifest ''test'' ''test'' ''default'' JNull (JStr ''nginx'') (JObj [])
                 (Some [JObj [(''hosts'', JList [JNull]), (''secretName'', JStr ''test-tls'')]])
                 (JStr ''uid-1''))
   \<and> log (snd (create_ingress default_env ''test'' ''default'' spec_no_host
                 (cluster_of spec_no_host [])))
       = [(INFO, ''Created Ingress: test in namespace: default'')]"
    by (simp add: create_ingress_def create_skipping_conflict_def io_defs api_defs example_defs
        ingress_manifest_def)
  have shadowed:
    "create_ingress_shadowed default_env ''test'' ''default'' spec_no_host
       (cluster_of spec_no_host [])
     = (Inr (), (cluster_of spec_no_host [])
                  \<lparr>log := [(WARNING, ''Ingress hostname not specified for test, ''
                                     @ ''skipping ingress creation'')]\<rparr>)"
    by (simp add: create_ingress_shadowed_def io_defs example_defs)
  have with_host:
    "objects (snd (create_ingress default_env ''test'' ''default'' spec_with_host
                     (cluster_of spec_with_host []))) (Ingress, ''default'', ''test'')
       = Some (ingress_manifest ''test'' ''test'' ''default'' (JStr ''app.example.com'')
                 (JStr ''nginx'') (JObj [])
                 (Some [JObj [(''hosts'', JList [JStr ''app.example.com'']),
                              (''secretName'', JStr ''test-tls'')]])
                 (JStr ''uid-1''))"
    by (simp add: create_ingress_def create_skipping_conflict_def io_defs api_defs example_defs
        ingress_manifest_def)
  from direct shadowed with_host show ?thesis by blast
qed

section \<open>Properties of the database lifecycle\<close>

lemmas db_defs = db_call_def connect_def role_exists_def database_exists_def create_user_def
  alter_user_def create_database_def alter_database_owner_def terminate_backends_def
  drop_database_if_exists_def drop_role_if_exists_def import_psycopg2_def
  read_admin_password_def

lemmas provision_defs = create_database_user_def create_db_credentials_secret_def
  create_skipping_conflict_def provisioned_def admin_secret_def db_defs io_defs api_defs
  example_defs generate_db_name_def generate_db_username_def secret_manifest_def
  secret_password_def decode_secret_value_def b64decode_def utf8_decode_def b64_alphabet_def
  cont_def

text \<open>
  C5. The claim says that after every provisioning call the password key of the
  mirrored secret equals the password just set on the role. The first call creates role,
  database and secret with the password \<open>first\<close>. A second call with the password
  \<open>second\<close> alters the role's password to \<open>second\<close>, and
  \<^verbatim>\<open>create_db_credentials_secret\<close>, whose create is refused with 409, skips: the
  secret still holds the encoding of \<open>first\<close>. (The comment at line 1607 reads
  "Create or update the database credentials secret".)
\<close>

theorem rotated_password_not_mirrored:
  "fst (create_database_user default_env ''test'' ''default'' (Some ''first'')
          (provisioned spec_no_host))
     = Inr (''odoo_user_default_test'', ''first'', ''odoo_default_test'')
 \<and> secret_password (snd (create_database_user default_env ''test'' ''default'' (Some ''first'')
                            (provisioned spec_no_host)))
     = Inr (JStr (b64encode (utf8_encode ''first'')))
 \<and> fst (create_database_user default_env ''test'' ''default'' (Some ''second'')
          (snd (create_database_user default_env ''test'' ''default'' (Some ''first'')
                  (provisioned spec_no_host))))
     = Inr (''odoo_user_default_test'', ''second'', ''odoo_default_test'')
 \<and> map_of (roles (snd (create_database_user default_env ''test'' ''default'' (Some ''second'')
          (snd (create_database_user default_env ''test'' ''default'' (Some ''first'')
                  (provisioned spec_no_host)))))) ''odoo_user_default_test''
     = Some ''second''
 \<and> secret_password (snd (create_database_user default_env ''test'' ''default'' (Some ''second'')
          (snd (create_database_user default_env ''test'' ''default'' (Some ''first'')
                  (provisioned spec_no_host)))))
     = Inr (JStr (b64encode (utf8_encode ''first'')))
 \<and> b64encode (utf8_encode ''first'') = ''Zmlyc3Q=''
 \<and> b64encode (utf8_encode ''second'') = ''c2Vjb25k''"
proof -
  define w1 where "w1 = snd (create_database_user default_env ''test'' ''default'' (Some ''first'')
          (provisioned spec_no_host))"
  have first: "create_database_user default_env ''test'' ''default'' (Some ''first'')
          (provisioned spec_no_host)
     = (Inr (''odoo_user_default_test'', ''first'', ''odoo_default_test''), w1)"
    unfolding w1_def by (simp add: provision_defs)
  have s1: "secret_password w1 = Inr (JStr (b64encode (utf8_encode ''first'')))"
    unfolding w1_def by (simp add: provision_defs)
  have second: "fst (create_database_user default_env ''test'' ''default'' (Some ''second'') w1)
     = Inr (''odoo_user_default_test'', ''second'', ''odoo_default_test'')
   \<and> map_of (roles (snd (create_database_user default_env ''test'' ''default''
                            (Some ''second'') w1))) ''odoo_user_default_test'' = Some ''second''
   \<and> secret_password (snd (create_database_user default_env ''test'' ''default''
                            (Some ''second'') w1))
     = Inr (JStr (b64encode (utf8_encode ''first'')))"
    unfolding w1_def by (simp add: provision_defs)
  have enc: "b64encode (utf8_encode ''first'') = ''Zmlyc3Q=''
     \<and> b64encode (utf8_encode ''second'') = ''c2Vjb25k''"
    by (simp add: utf8_encode_def b64_char_def b64_alphabet_def)
  show ?thesis using first s1 second enc by (simp add: w1_def [symmetric])
qed

text \<open>
  C9. Whatever the environment, the names and the state of the cluster and of the
  database server, \<^verbatim>\<open>delete_odoo_instance\<close> returns its success result and raises
  nothing. When the clean-up raises \<open>e\<close>, the handler leaves the world as the clean-up
  has left it and adds three lines to the log: the two warnings, the first of which
  quotes \<open>e\<close>, and the line that reports the deletion.
\<close>

theorem delete_never_fails:
  "fst (delete_odoo_instance env name namespace w) = Inr delete_result
 \<and> (fst (cleanup_database env name namespace
            (w\<lparr>log := log w @ [(INFO, ''Deleting OdooInstance: '' @ name @ '' in namespace: ''
                                        @ namespace)]\<rparr>)) = Inl e
      \<longrightarrow> snd (delete_odoo_instance env name namespace w)
          = (snd (cleanup_database env name namespace
                    (w\<lparr>log := log w @ [(INFO, ''Deleting OdooInstance: '' @ name
                                                @ '' in namespace: '' @ namespace)]\<rparr>)))
              \<lparr>log := log (snd (cleanup_database env name namespace
                    (w\<lparr>log := log w @ [(INFO, ''Deleting OdooInstance: '' @ name
                                                @ '' in namespace: '' @ namespace)]\<rparr>)))
                 @ [(WARNING, ''Failed to clean up database user and database: '' @ str_exn e),
                    (WARNING, ''Continuing with deletion, but database resources may not ''
                              @ ''be fully cleaned up''),
                    (INFO, ''OdooInstance '' @ name @ '' in namespace '' @ namespace
                           @ '' has been deleted'')]\<rparr>)"
  by (simp add: delete_odoo_instance_def io_defs split: prod.splits sum.splits)

theorem delete_never_fails_witness:
  "fst (cleanup_database unreachable_env ''test'' ''default''
          ((provisioned spec_no_host)
             \<lparr>log := [(INFO, ''Deleting OdooInstance: test in namespace: default'')]\<rparr>))
     = Inl (DatabaseError ''could not connect to server'')
 \<and> fst (delete_odoo_instance unreachable_env ''test'' ''default'' (provisioned spec_no_host))
     = Inr delete_result
 \<and> log (snd (delete_odoo_instance unreachable_env ''test'' ''default''
               (provisioned spec_no_host)))
     = [(INFO, ''Deleting OdooInstance: test in namespace: default''),
        (WARNING, ''Failed to clean up database user and database: ''
                  @ ''could not connect to server''),
        (WARNING, ''Continuing with deletion, but database resources may not ''
                  @ ''be fully cleaned up''),
        (INFO, ''OdooInstance test in namespace default has been deleted'')]"
proof -
  have fails:
    "cleanup_database unreachable_env ''test'' ''default''
       ((provisioned spec_no_host)
          \<lparr>log := [(INFO, ''Deleting OdooInstance: test in namespace: default'')]\<rparr>)
     = (Inl (DatabaseError ''could not connect to server''),
        (provisioned spec_no_host)
          \<lparr>calls := [\<lparr>verb_of = Read, kind_of = Secret, namespace_of = ''default'',
                        name_of = ''postgres-admin'', failed = None\<rparr>],
            db_calls := 1,
            log := [(INFO, ''Deleting OdooInstance: test in namespace: default'')]\<rparr>)"
    by (simp add: cleanup_database_def unreachable_env_def provision_defs)
  have start: "log (provisioned spec_no_host) = []"
    by (simp add: provisioned_def cluster_of_def)
  show ?thesis
    using delete_never_fails [of unreachable_env "''test''" "''default''"
        "provisioned spec_no_host" "DatabaseError ''could not connect to server''"]
    by (simp add: fails start)
qed

section \<open>Properties of the environment overlay\<close>
















text \<open>
  The \<^verbatim>\<open>create_deployment\<close> that the handlers reach (line 1098) is the later
  definition: the environment of the Deployment it creates is the custom list alone.
\<close>

lemma create_deployment_env_is_custom_only:
  "objects (snd (create_deployment default_env ''test'' ''default'' spec_override
                   (cluster_of spec_override []))) (Deployment, ''default'', ''test'')
     = Some (deployment_manifest ''test'' ''default'' (JStr ''uid-1'') (JStr ''odoo:17.0'')
               (JInt 1) default_deployment_resources (JList [custom_host]) None)"
  by (simp add: create_deployment_def deployment_image_def create_skipping_conflict_def
      io_defs api_defs example_defs spec_override_def deployment_manifest_def)

section \<open>Properties of the update handler\<close>

text \<open>The resource functions leave the custom objects alone.\<close>

lemma keeps_return [intro!, simp]: "keeps_instances (io_return x)"
  by (simp add: keeps_instances_def io_return_def)

lemma keeps_lift [intro!, simp]: "keeps_instances (io_lift r)"
  by (simp add: keeps_instances_def io_lift_def)

lemma keeps_logger [intro!, simp]: "keeps_instances (logger lvl msg)"
  by (simp add: keeps_instances_def logger_def)

lemma keeps_bind [intro!]:
  "keeps_instances m \<Longrightarrow> (\<And>x. keeps_instances (f x)) \<Longrightarrow> keeps_instances (io_bind m f)"
  unfolding keeps_instances_def io_bind_def
  by (auto split: prod.splits sum.splits)

lemma keeps_try [intro!]:
  "keeps_instances m \<Longrightarrow> (\<And>e. keeps_instances (h e)) \<Longrightarrow> keeps_instances (io_try m h)"
  unfolding keeps_instances_def io_try_def
  by (auto split: prod.splits sum.splits)

lemma keeps_if [intro!]:
  "keeps_instances a \<Longrightarrow> keeps_instances b \<Longrightarrow> keeps_instances (if c then a else b)"
  by simp

lemma keeps_create [intro!]:
  "k \<noteq> OdooInstance \<Longrightarrow> keeps_instances (create_namespaced env k namespace body)"
  by (auto simp: keeps_instances_def api_defs Let_def split: option.splits if_splits)

lemma keeps_read [intro!, simp]: "keeps_instances (read_namespaced env k name namespace)"
  by (auto simp: keeps_instances_def api_defs split: option.splits)

lemma keeps_patch [intro!]:
  "k \<noteq> OdooInstance \<Longrightarrow> keeps_instances (patch_namespaced env k name namespace body)"
  by (auto simp: keeps_instances_def api_defs split: option.splits)

lemma keeps_delete [intro!]:
  "k \<noteq> OdooInstance \<Longrightarrow> keeps_instances (delete_namespaced env k name namespace)"
  by (auto simp: keeps_instances_def api_defs split: option.splits)

lemma keeps_owner_uid [intro!, simp]: "keeps_instances (owner_uid env name namespace)"
  unfolding owner_uid_def by (intro keeps_bind keeps_read keeps_lift)

lemma keeps_handler [intro!]:
  "(\<And>status reason. keeps_instances (a status reason)) \<Longrightarrow> keeps_instances b
   \<Longrightarrow> keeps_instances (case e of ApiException status reason \<Rightarrow> a status reason
                          | PermanentError x \<Rightarrow> b | AttributeError x \<Rightarrow> b | TypeError x \<Rightarrow> b
                          | KeyError x \<Rightarrow> b | IndexError x \<Rightarrow> b | ValueError x \<Rightarrow> b
                          | NameError x \<Rightarrow> b | ImportError x \<Rightarrow> b | DatabaseError x \<Rightarrow> b)"
  by (cases e) simp_all

lemma keeps_option [intro!]:
  "keeps_instances a \<Longrightarrow> (\<And>x. keeps_instances (b x))
   \<Longrightarrow> keeps_instances (case opt of None \<Rightarrow> a | Some x \<Rightarrow> b x)"
  by (cases opt) simp_all

lemma keeps_create_skipping [intro!]:
  "k \<noteq> OdooInstance
   \<Longrightarrow> keeps_instances (create_skipping_conflict env k namespace body created exists_msg)"
  unfolding create_skipping_conflict_def by (intro keeps_try keeps_bind keeps_handler keeps_option keeps_if keeps_create keeps_logger keeps_lift keeps_return)

lemma keeps_create_config_map [intro!, simp]:
  "keeps_instances (create_config_map env name namespace spec)"
  unfolding create_config_map_def Let_def by (intro keeps_bind keeps_owner_uid keeps_create_skipping) simp

lemma keeps_update_config_map [intro!, simp]:
  "keeps_instances (update_config_map env name namespace spec)"
  unfolding update_config_map_def Let_def by (intro keeps_try keeps_bind keeps_handler keeps_if keeps_read keeps_patch keeps_create_config_map keeps_lift) simp

lemma keeps_create_deployment [intro!, simp]:
  "keeps_instances (create_deployment env name namespace spec)"
  unfolding create_deployment_def by (intro keeps_bind keeps_owner_uid keeps_create_skipping keeps_lift) simp

lemma keeps_update_deployment [intro!, simp]:
  "keeps_instances (update_deployment env name namespace spec)"
  unfolding update_deployment_def by (intro keeps_try keeps_bind keeps_handler keeps_if keeps_read keeps_patch keeps_create_deployment keeps_lift keeps_logger) simp

lemma keeps_create_service [intro!, simp]:
  "keeps_instances (create_service env name namespace spec)"
  unfolding create_service_def by (intro keeps_bind keeps_owner_uid keeps_create_skipping) simp

lemma keeps_update_service [intro!, simp]:
  "keeps_instances (update_service env name namespace spec)"
  unfolding update_service_def Let_def by (intro keeps_try keeps_bind keeps_handler keeps_if keeps_read keeps_create_service keeps_lift keeps_return)

lemma keeps_create_ingress [intro!, simp]:
  "keeps_instances (create_ingress env name namespace spec)"
  unfolding create_ingress_def by (intro keeps_bind keeps_owner_uid keeps_create_skipping keeps_lift) simp

lemma keeps_update_ingress [intro!, simp]:
  "keeps_instances (update_ingress env name namespace spec)"
  unfolding update_ingress_def by (intro keeps_try keeps_bind keeps_handler keeps_if keeps_read keeps_patch keeps_create_ingress keeps_lift keeps_logger) simp

lemma keeps_update_resources:
  "keeps_instances (update_resources env name namespace spec old)"
  unfolding update_resources_def
  by (intro keeps_bind keeps_try keeps_handler keeps_if keeps_update_config_map
      keeps_update_deployment keeps_update_service keeps_update_ingress keeps_create_ingress
      keeps_delete keeps_lift keeps_logger keeps_return) simp

lemma keeps_log_changes: "keeps_instances (log_changes env diff)"
  by (induction diff) auto

lemma merge_fields_lookup:
  "map_of (merge_fields ts ps) k =
     (case map_of ps k of
        None \<Rightarrow> map_of ts k
      | Some v \<Rightarrow> if v = JNull then None
                  else Some (merge_patch (case map_of ts k of Some t \<Rightarrow> t | None \<Rightarrow> JNull) v))"
  by (induction ps) (auto simp: Let_def AList.update_conv' AList.delete_conv' split: option.splits)

lemma merge_patch_scalar: "\<not> is_object v \<Longrightarrow> merge_patch t v = v"
  by (cases v) (simp_all add: is_object_def)

lemma fold_update_lookup:
  "map_of (fold (\<lambda>kv acc. AList.update (fst kv) (snd kv) acc) patch ps) k =
     (case map_of (rev patch) k of None \<Rightarrow> map_of ps k | Some v \<Rightarrow> Some v)"
  by (induction patch arbitrary: ps) (auto simp: AList.update_conv' split: option.splits)

lemma rev_lookup_None: "k \<notin> fst ` set patch \<Longrightarrow> map_of (rev patch) k = None"
  by (simp add: map_of_eq_None_iff)

text \<open>What \<^verbatim>\<open>patch_status\<close> does to the store.\<close>

lemma patch_status_calls:
  assumes "patch_status env name ns patch w = (r, w')"
  shows "calls w' \<noteq> []"
  using assms
  by (auto simp: patch_status_def io_defs api_defs split: option.splits sum.splits prod.splits if_splits exn.splits json.splits)

lemma patch_status_unapplied:
  assumes "patch_status env name ns patch w = (r, w')"
    and "last (calls w') \<noteq> status_patched ns name"
  shows "objects w' = objects w"
  using assms
  by (auto simp: patch_status_def io_defs api_defs status_patched_def split: option.splits sum.splits prod.splits if_splits exn.splits json.splits)

lemma patch_status_applied:
  assumes "patch_status env name ns patch w = (r, w')"
    and "last (calls w') = status_patched ns name"
  shows "\<exists>members. objects w (OdooInstance, ns, name) = Some (JObj members)
         \<and> r = Inr ()
         \<and> objects w' = (objects w)((OdooInstance, ns, name) \<mapsto>
              JObj (AList.update ''status''
                (merge_patch (case map_of members ''status'' of Some s \<Rightarrow> s | None \<Rightarrow> JNull)
                   (JObj (fold (\<lambda>kv acc. AList.update (fst kv) (snd kv) acc) patch
                      (case map_of members ''status'' of Some (JObj st) \<Rightarrow> st | _ \<Rightarrow> []))))
                members))
         \<and> (case map_of members ''status'' of Some (JObj st) \<Rightarrow> True | None \<Rightarrow> True | _ \<Rightarrow> False)"
  using assms
  by (auto simp: patch_status_def io_defs api_defs status_patched_def split: option.splits sum.splits prod.splits if_splits exn.splits json.splits)

lemma status_after_patch:
  assumes "patch_status env name ns patch w = (r, w')"
    and "last (calls w') = status_patched ns name"
    and "map_of (rev patch) k = Some v" and "\<not> is_object v"
  shows "instance_status w' ns name k = v"
proof -
  from patch_status_applied [OF assms(1,2)] obtain members where
    o: "objects w' = (objects w)((OdooInstance, ns, name) \<mapsto>
              JObj (AList.update ''status''
                (merge_patch (case map_of members ''status'' of Some s \<Rightarrow> s | None \<Rightarrow> JNull)
                   (JObj (fold (\<lambda>kv acc. AList.update (fst kv) (snd kv) acc) patch
                      (case map_of members ''status'' of Some (JObj st) \<Rightarrow> st | _ \<Rightarrow> []))))
                members))"
    by blast
  show ?thesis
    using assms(3,4)
    by (simp add: instance_status_def o bind_def AList.update_conv' merge_fields_lookup
        fold_update_lookup merge_patch_scalar)
qed

lemma status_kept:
  assumes "patch_status env name ns patch w = (r, w')"
    and "k \<notin> fst ` set patch"
    and "\<not> is_object (instance_status w ns name k)"
  shows "instance_status w' ns name k = instance_status w ns name k"
proof (cases "last (calls w') = status_patched ns name")
  case False
  then show ?thesis
    using patch_status_unapplied [OF assms(1)] by (simp add: instance_status_def)
next
  case True
  from patch_status_applied [OF assms(1) True] obtain members where
    m: "objects w (OdooInstance, ns, name) = Some (JObj members)"
    and o: "objects w' = (objects w)((OdooInstance, ns, name) \<mapsto>
              JObj (AList.update ''status''
                (merge_patch (case map_of members ''status'' of Some s \<Rightarrow> s | None \<Rightarrow> JNull)
                   (JObj (fold (\<lambda>kv acc. AList.update (fst kv) (snd kv) acc) patch
                      (case map_of members ''status'' of Some (JObj st) \<Rightarrow> st | _ \<Rightarrow> []))))
                members))"
    and s: "(case map_of members ''status'' of Some (JObj st) \<Rightarrow> True | None \<Rightarrow> True | _ \<Rightarrow> False)"
    by blast
  have n: "map_of (rev patch) k = None" using assms(2) by (rule rev_lookup_None)
  show ?thesis
    using assms(3) s
    by (auto simp: instance_status_def o m bind_def AList.update_conv' merge_fields_lookup
        fold_update_lookup merge_patch_scalar n split: option.splits json.splits)
qed

lemma keeps_status:
  "keeps_instances m \<Longrightarrow> m w = (r, w') \<Longrightarrow> instance_status w' ns name k = instance_status w ns name k"
  by (simp add: keeps_instances_def instance_status_def)

lemma update_success_status:
  assumes "update_odoo_instance env name ns spec old diff w = (Inr r, w')"
    and "last (calls w') = status_patched ns name"
  shows "instance_status w' ns name ''phase'' = JStr ''Running''
       \<and> instance_status w' ns name ''ready'' = JBool True"
proof -
  obtain p w1 where p: "update_prepare env name ns diff w = (p, w1)"
    by (cases "update_prepare env name ns diff w")
  obtain b w2 where b: "update_resources env name ns spec old w1 = (b, w2)"
    by (cases "update_resources env name ns spec old w1")
  obtain q w3 where q: "patch_status env name ns
       [(''phase'', JStr ''Running''), (''ready'', JBool True),
        (''url'', case b of Inr url \<Rightarrow> url | _ \<Rightarrow> JNull),
        (''message'', JStr ''Odoo instance updated successfully'')] w2 = (q, w3)"
    by (cases "patch_status env name ns
       [(''phase'', JStr ''Running''), (''ready'', JBool True),
        (''url'', case b of Inr url \<Rightarrow> url | _ \<Rightarrow> JNull),
        (''message'', JStr ''Odoo instance updated successfully'')] w2")
  have w': "calls w' = calls w3 \<and> objects w' = objects w3 \<and> (\<exists>url. b = Inr url)"
    using assms(1) p b q
    by (auto simp: update_odoo_instance_def io_bind_def io_try_def io_return_def io_lift_def
        logger_def Let_def split: sum.splits exn.splits prod.splits)
  then have l: "last (calls w3) = status_patched ns name" using assms(2) by simp
  have "instance_status w3 ns name ''phase'' = JStr ''Running''"
    by (rule status_after_patch [OF q l]) (simp_all add: is_object_def)
  moreover have "instance_status w3 ns name ''ready'' = JBool True"
    by (rule status_after_patch [OF q l]) (simp_all add: is_object_def)
  ultimately show ?thesis using w' by (simp add: instance_status_def)
qed

lemma prepare_keeps_ready:
  assumes "update_prepare env name ns diff w = (p, w1)"
    and "\<not> is_object (instance_status w ns name ''ready'')"
  shows "instance_status w1 ns name ''ready'' = instance_status w ns name ''ready''"
proof -
  let ?w0 = "w\<lparr>log := log w @ [(INFO, ''Updating OdooInstance: '' @ name @ '' in namespace: '' @ ns)]\<rparr>"
  obtain q wq where q: "patch_status env name ns
      [(''phase'', JStr ''Updating''), (''message'', JStr ''Updating resources'')] ?w0 = (q, wq)"
    by (cases "patch_status env name ns
      [(''phase'', JStr ''Updating''), (''message'', JStr ''Updating resources'')] ?w0")
  have s0: "instance_status ?w0 ns name ''ready'' = instance_status w ns name ''ready''"
    by (simp add: instance_status_def)
  have sq: "instance_status wq ns name ''ready'' = instance_status ?w0 ns name ''ready''"
  proof (rule status_kept [OF q])
    show "''ready'' \<notin> fst ` set [(''phase'', JStr ''Updating''),
                                    (''message'', JStr ''Updating resources'')]"
      by simp
    show "\<not> is_object (instance_status ?w0 ns name ''ready'')"
      unfolding s0 by (rule assms(2))
  qed
  have "instance_status w1 ns name ''ready'' = instance_status wq ns name ''ready''"
  proof (cases q)
    case (Inl e)
    then have "w1 = wq" using assms(1) q by (simp add: update_prepare_def io_bind_def logger_def)
    then show ?thesis by simp
  next
    case (Inr u)
    then have "log_changes env diff wq = (p, w1)"
      using assms(1) q by (simp add: update_prepare_def io_bind_def logger_def)
    then show ?thesis by (rule keeps_status [OF keeps_log_changes])
  qed
  then show ?thesis using sq s0 by simp
qed

lemma update_failure_status:
  assumes "update_prepare env name ns diff w = (Inr (), w1)"
    and "update_resources env name ns spec old w1 = (Inl (ApiException status reason), w2)"
    and "update_odoo_instance env name ns spec old diff w = (r, w')"
    and "last (calls w') = status_patched ns name"
    and "\<not> is_object (instance_status w ns name ''ready'')"
  shows "r = Inl (PermanentError (''Error updating resources: ''
                                  @ str_exn (ApiException status reason)))
       \<and> instance_status w' ns name ''phase'' = JStr ''Failed''
       \<and> instance_status w' ns name ''message''
           = JStr (''Error updating resources: '' @ str_exn (ApiException status reason))
       \<and> instance_status w' ns name ''ready'' = instance_status w ns name ''ready''"
proof -
  let ?msg = "''Error updating resources: '' @ str_exn (ApiException status reason)"
  let ?w2 = "w2\<lparr>log := log w2 @ [(ERROR, ?msg)]\<rparr>"
  obtain q wq where q0: "patch_status env name ns
      [(''phase'', JStr ''Failed''), (''message'', JStr ?msg)] ?w2 = (q, wq)"
    by (cases "patch_status env name ns
      [(''phase'', JStr ''Failed''), (''message'', JStr ?msg)] ?w2")
  have run: "r = (case q of Inl e \<Rightarrow> Inl e | Inr u \<Rightarrow> Inl (PermanentError ?msg)) \<and> w' = wq"
    using assms(1,2,3) q0
    by (auto simp: update_odoo_instance_def io_bind_def io_try_def io_return_def io_lift_def
        logger_def Let_def split: sum.splits)
  then have q: "patch_status env name ns
      [(''phase'', JStr ''Failed''), (''message'', JStr ?msg)] ?w2 = (q, w')"
    using q0 by simp
  from patch_status_applied [OF q assms(4)] have qr: "q = Inr ()" by blast
  have r: "r = Inl (PermanentError ?msg)" using run qr by simp
  have ph: "instance_status w' ns name ''phase'' = JStr ''Failed''"
    by (rule status_after_patch [OF q assms(4)]) (simp_all add: is_object_def)
  have ms: "instance_status w' ns name ''message'' = JStr ?msg"
    by (rule status_after_patch [OF q assms(4)]) (simp_all add: is_object_def)
  have r1: "instance_status w1 ns name ''ready'' = instance_status w ns name ''ready''"
    by (rule prepare_keeps_ready [OF assms(1,5)])
  have r2: "instance_status w2 ns name ''ready'' = instance_status w1 ns name ''ready''"
    by (rule keeps_status [OF keeps_update_resources assms(2)])
  have r2': "instance_status ?w2 ns name ''ready'' = instance_status w2 ns name ''ready''"
    by (simp add: instance_status_def)
  have r3: "instance_status w' ns name ''ready'' = instance_status ?w2 ns name ''ready''"
  proof (rule status_kept [OF q])
    show "''ready'' \<notin> fst ` set [(''phase'', JStr ''Failed''), (''message'', JStr ?msg)]"
      by simp
    show "\<not> is_object (instance_status ?w2 ns name ''ready'')"
      unfolding r2' r2 r1 by (rule assms(5))
  qed
  show ?thesis using r ph ms r1 r2 r2' r3 by simp
qed

lemmas update_defs = update_odoo_instance_def update_prepare_def update_resources_def
  patch_status_def update_config_map_def update_deployment_def update_service_def
  create_config_map_def create_deployment_def create_service_def deployment_image_def
  ingress_enabled_def instance_url_def create_skipping_conflict_def
  config_map_manifest_def deployment_manifest_def service_manifest_def
  status_patched_def

lemma success_run:
  "\<exists>w'. update_odoo_instance default_env ''test'' ''default'' spec_plain spec_plain []
          (cluster_of spec_plain [(''phase'', JStr ''Pending''), (''ready'', JBool False)])
        = (Inr update_result, w')
      \<and> last (calls w') = status_patched ''default'' ''test''"
  by (simp add: update_defs io_defs api_defs example_defs spec_plain_def)

lemma failure_run:
  "\<exists>w1 w2 w'.
      update_prepare failing_env ''test'' ''default'' []
          (cluster_of spec_plain [(''phase'', JStr ''Running''), (''ready'', JBool True)])
        = (Inr (), w1)
    \<and> update_resources failing_env ''test'' ''default'' spec_plain spec_plain w1
        = (Inl (ApiException 500 ''Internal Server Error''), w2)
    \<and> snd (update_odoo_instance failing_env ''test'' ''default'' spec_plain spec_plain []
          (cluster_of spec_plain [(''phase'', JStr ''Running''), (''ready'', JBool True)])) = w'
    \<and> last (calls w') = status_patched ''default'' ''test''"
  by (simp add: update_defs io_defs api_defs example_defs spec_plain_def failing_env_def)

text \<open>
  C6. An update call that returns its result, and whose last call to the store is the
  status patch that the store accepted, leaves the status with phase \<open>Running\<close> and
  ready \<open>true\<close>, whatever the status was before. An update call whose resource updates
  raise an \<open>ApiException\<close>, and whose last call to the store is the accepted status
  patch, raises the terminal error and leaves the status with phase \<open>Failed\<close>, the
  message of the error, and the ready member as it was before the call (ready being a
  scalar or absent, as its type in \<^verbatim>\<open>types.py\<close> says).
\<close>

theorem update_phase_transitions:
  "(update_odoo_instance env name ns spec old diff w = (Inr result, w')
      \<and> last (calls w') = status_patched ns name
    \<longrightarrow> instance_status w' ns name ''phase'' = JStr ''Running''
      \<and> instance_status w' ns name ''ready'' = JBool True)
 \<and> (update_prepare env name ns diff w = (Inr (), w1)
      \<and> update_resources env name ns spec old w1 = (Inl (ApiException status reason), w2)
      \<and> update_odoo_instance env name ns spec old diff w = (r, w'')
      \<and> last (calls w'') = status_patched ns name
      \<and> \<not> is_object (instance_status w ns name ''ready'')
    \<longrightarrow> r = Inl (PermanentError (''Error updating resources: ''
                                    @ str_exn (ApiException status reason)))
      \<and> instance_status w'' ns name ''phase'' = JStr ''Failed''
      \<and> instance_status w'' ns name ''message''
          = JStr (''Error updating resources: '' @ str_exn (ApiException status reason))
      \<and> ''Error updating resources: '' @ str_exn (ApiException status reason) \<noteq> []
      \<and> instance_status w'' ns name ''ready'' = instance_status w ns name ''ready'')"
  using update_success_status [of env name ns spec old diff w result w']
    update_failure_status [of env name ns diff w w1 spec old status reason w2 r w'']
  by simp

theorem update_phase_transitions_witness:
  "(\<exists>w'. update_odoo_instance default_env ''test'' ''default'' spec_plain spec_plain []
            (cluster_of spec_plain [(''phase'', JStr ''Pending''), (''ready'', JBool False)])
          = (Inr update_result, w')
        \<and> last (calls w') = status_patched ''default'' ''test''
        \<and> instance_status w' ''default'' ''test'' ''phase'' = JStr ''Running''
        \<and> instance_status w' ''default'' ''test'' ''ready'' = JBool True)
 \<and> (\<exists>w1 w2 w'.
        update_prepare failing_env ''test'' ''default'' []
            (cluster_of spec_plain [(''phase'', JStr ''Running''), (''ready'', JBool True)])
          = (Inr (), w1)
      \<and> update_resources failing_env ''test'' ''default'' spec_plain spec_plain w1
          = (Inl (ApiException 500 ''Internal Server Error''), w2)
      \<and> update_odoo_instance failing_env ''test'' ''default'' spec_plain spec_plain []
            (cluster_of spec_plain [(''phase'', JStr ''Running''), (''ready'', JBool True)])
          = (Inl (PermanentError (''Error updating resources: ''
                    @ str_exn (ApiException 500 ''Internal Server Error''))), w')
      \<and> last (calls w') = status_patched ''default'' ''test''
      \<and> instance_status w' ''default'' ''test'' ''phase'' = JStr ''Failed''
      \<and> instance_status w' ''default'' ''test'' ''ready'' = JBool True)"
proof -
  let ?pending = "cluster_of spec_plain [(''phase'', JStr ''Pending''), (''ready'', JBool False)]"
  let ?running = "cluster_of spec_plain [(''phase'', JStr ''Running''), (''ready'', JBool True)]"
  from success_run obtain ws where
    s: "update_odoo_instance default_env ''test'' ''default'' spec_plain spec_plain [] ?pending
          = (Inr update_result, ws)"
    and sl: "last (calls ws) = status_patched ''default'' ''test''"
    by blast
  have first: "instance_status ws ''default'' ''test'' ''phase'' = JStr ''Running''
      \<and> instance_status ws ''default'' ''test'' ''ready'' = JBool True"
    using update_phase_transitions [of default_env "''test''" "''default''" spec_plain spec_plain
        "[]" ?pending update_result ws] s sl
    by simp
  from failure_run obtain w1 w2 wf where
    p: "update_prepare failing_env ''test'' ''default'' [] ?running = (Inr (), w1)"
    and u: "update_resources failing_env ''test'' ''default'' spec_plain spec_plain w1
          = (Inl (ApiException 500 ''Internal Server Error''), w2)"
    and f: "snd (update_odoo_instance failing_env ''test'' ''default'' spec_plain spec_plain []
                   ?running) = wf"
    and fl: "last (calls wf) = status_patched ''default'' ''test''"
    by blast
  have ready: "instance_status ?running ''default'' ''test'' ''ready'' = JBool True"
    by (simp add: instance_status_def example_defs bind_def)
  have f': "update_odoo_instance failing_env ''test'' ''default'' spec_plain spec_plain []
              ?running
            = (fst (update_odoo_instance failing_env ''test'' ''default'' spec_plain spec_plain
                      [] ?running), wf)"
    using f by (simp add: prod_eq_iff)
  have second:
    "fst (update_odoo_instance failing_env ''test'' ''default'' spec_plain spec_plain []
            ?running)
       = Inl (PermanentError (''Error updating resources: ''
                @ str_exn (ApiException 500 ''Internal Server Error'')))
     \<and> instance_status wf ''default'' ''test'' ''phase'' = JStr ''Failed''
     \<and> instance_status wf ''default'' ''test'' ''ready'' = JBool True"
    using update_phase_transitions [of failing_env "''test''" "''default''" spec_plain
        spec_plain "[]" ?running _ _ w1 500 "''Internal Server Error''" w2 _ wf] p u f' fl ready
    by (simp add: is_object_def)
  show ?thesis
    using s sl first p u f' fl second by (metis (no_types, lifting))
qed

end
